theory Spec2Isabelle
  imports Main "HOL-Library.Sublist"
begin

section \<open>Python values\<close>

text \<open>
  The mock tool server (\<^verbatim>\<open>trajectory_sandbox/mock_tools/server.py\<close>) works on the values
  that \<^verbatim>\<open>json.loads\<close> and \<^verbatim>\<open>json.load\<close> produce: \<^verbatim>\<open>None\<close>, booleans, integers,
  strings, lists and dictionaries with string keys. A dictionary keeps its insertion
  order, so it is an association list; lookup reads the first pair of a key.
  A character is a code point below 256. JSON numbers with a fraction or an exponent
  (Python floats) are outside the model, and so are the calls to the \<^verbatim>\<open>logging\<close> module
  and the \<^verbatim>\<open>/tools\<close> listing endpoint, which no other part of the server reads.
\<close>

datatype json =
    JNull
  | JBool bool
  | JInt int
  | JStr string
  | JArr "json list"
  | JObj "(string \<times> json) list"

text \<open>
  The exceptions the server can raise. \<open>HTTPException\<close> carries the status code and the
  detail text; of the others only the class matters. \<open>NotModelled\<close> is no Python
  exception: it marks a format string that uses a construct of \<^verbatim>\<open>str.format\<close>
  (conversions, format specifications, attribute and index access) that this
  development does not interpret.
\<close>

datatype error =
    HTTPException nat string
  | AttributeError
  | TypeError
  | KeyError
  | IndexError
  | ValueError
  | FileNotFoundError
  | IsADirectoryError
  | NotModelled

subsection \<open>Truth value, iteration, membership\<close>

fun truthy :: "json \<Rightarrow> bool" where
  "truthy JNull = False"
| "truthy (JBool b) = b"
| "truthy (JInt n) = (n \<noteq> 0)"
| "truthy (JStr s) = (s \<noteq> [])"
| "truthy (JArr xs) = (xs \<noteq> [])"
| "truthy (JObj kvs) = (kvs \<noteq> [])"

text \<open>\<^verbatim>\<open>for x in v\<close>: a list yields its elements, a dictionary its keys, a string its
  characters; anything else is not iterable.\<close>

fun py_iter :: "json \<Rightarrow> error + json list" where
  "py_iter (JArr xs) = Inr xs"
| "py_iter (JObj kvs) = Inr (map (\<lambda>kv. JStr (fst kv)) kvs)"
| "py_iter (JStr s) = Inr (map (\<lambda>c. JStr [c]) s)"
| "py_iter v = Inl TypeError"

fun is_substring :: "string \<Rightarrow> string \<Rightarrow> bool" where
  "is_substring p [] = (p = [])"
| "is_substring p (c # cs) = (prefix p (c # cs) \<or> is_substring p cs)"

text \<open>\<^verbatim>\<open>field in data\<close> for a string \<open>field\<close>.\<close>

fun py_contains :: "json \<Rightarrow> string \<Rightarrow> error + bool" where
  "py_contains (JObj kvs) k = Inr (k \<in> fst ` set kvs)"
| "py_contains (JArr xs) k = Inr (JStr k \<in> set xs)"
| "py_contains (JStr s) k = Inr (is_substring k s)"
| "py_contains v k = Inl TypeError"

text \<open>\<^verbatim>\<open>data[field]\<close> for a string \<open>field\<close>: only a dictionary can be indexed by a string.\<close>

fun py_getitem :: "json \<Rightarrow> string \<Rightarrow> error + json" where
  "py_getitem (JObj kvs) k = (case map_of kvs k of None \<Rightarrow> Inl KeyError | Some v \<Rightarrow> Inr v)"
| "py_getitem v k = Inl TypeError"

text \<open>\<^verbatim>\<open>d.get(k)\<close> and \<^verbatim>\<open>d.get(k, default)\<close> on a dictionary.\<close>

definition dict_get :: "(string \<times> json) list \<Rightarrow> string \<Rightarrow> json \<Rightarrow> json" where
  "dict_get d k dflt = (case map_of d k of None \<Rightarrow> dflt | Some v \<Rightarrow> v)"

text \<open>\<^verbatim>\<open>d[k] = v\<close>: an existing key keeps its place, a new key goes last.\<close>

fun dict_set :: "(string \<times> json) list \<Rightarrow> string \<Rightarrow> json \<Rightarrow> (string \<times> json) list" where
  "dict_set [] k v = [(k, v)]"
| "dict_set (p # ps) k v = (if fst p = k then (k, v) # ps else p # dict_set ps k v)"

subsection \<open>\<^verbatim>\<open>str\<close> and \<^verbatim>\<open>repr\<close>\<close>

fun show_nat :: "nat \<Rightarrow> string" where
  "show_nat n =
     (if n < 10 then [''0123456789'' ! n]
      else show_nat (n div 10) @ [''0123456789'' ! (n mod 10)])"

declare show_nat.simps [simp del]

definition show_int :: "int \<Rightarrow> string" where
  "show_int i = (if i < 0 then CHR ''-'' # show_nat (nat (- i)) else show_nat (nat i))"

definition hex2 :: "nat \<Rightarrow> string" where
  "hex2 n = [''0123456789abcdef'' ! (n div 16), ''0123456789abcdef'' ! (n mod 16)]"

text \<open>\<^verbatim>\<open>str.isprintable\<close> on the code points below 256: the ASCII range from the space
  to the tilde, and the Latin-1 range without the no-break space and the soft hyphen.\<close>

definition printable :: "char \<Rightarrow> bool" where
  "printable c =
     (let n = (of_char c :: nat) in (32 \<le> n \<and> n < 127) \<or> (161 \<le> n \<and> n \<noteq> 173))"

definition repr_char :: "char \<Rightarrow> char \<Rightarrow> string" where
  "repr_char q c =
     (if c = q \<or> c = CHR 0x5C then [CHR 0x5C, c]
      else if c = CHR 0x09 then [CHR 0x5C, CHR ''t'']
      else if c = CHR 0x0A then [CHR 0x5C, CHR ''n'']
      else if c = CHR 0x0D then [CHR 0x5C, CHR ''r'']
      else if printable c then [c]
      else CHR 0x5C # CHR ''x'' # hex2 (of_char c))"

text \<open>\<^verbatim>\<open>repr\<close> of a string: double quotes only when the string has a single quote and
  no double quote.\<close>

definition str_repr :: "string \<Rightarrow> string" where
  "str_repr s =
     (let q = (if CHR 0x27 \<in> set s \<and> CHR 0x22 \<notin> set s then CHR 0x22 else CHR 0x27)
      in q # concat (map (repr_char q) s) @ [q])"

fun join :: "string \<Rightarrow> string list \<Rightarrow> string" where
  "join sep [] = []"
| "join sep [x] = x"
| "join sep (x # y # ys) = x @ sep @ join sep (y # ys)"

fun py_repr :: "json \<Rightarrow> string"
  and py_repr_list :: "json list \<Rightarrow> string list"
  and py_repr_items :: "(string \<times> json) list \<Rightarrow> string list" where
  "py_repr JNull = ''None''"
| "py_repr (JBool b) = (if b then ''True'' else ''False'')"
| "py_repr (JInt i) = show_int i"
| "py_repr (JStr s) = str_repr s"
| "py_repr (JArr xs) = ''['' @ join '', '' (py_repr_list xs) @ '']''"
| "py_repr (JObj kvs) = ''{'' @ join '', '' (py_repr_items kvs) @ ''}''"
| "py_repr_list [] = []"
| "py_repr_list (x # xs) = py_repr x # py_repr_list xs"
| "py_repr_items [] = []"
| "py_repr_items ((k, v) # kvs) = (str_repr k @ '': '' @ py_repr v) # py_repr_items kvs"

text \<open>\<^verbatim>\<open>str(v)\<close>, which is also what an f-string and \<^verbatim>\<open>format(v, "")\<close> give for these
  values: a string is itself, everything else its \<^verbatim>\<open>repr\<close>.\<close>

fun py_str :: "json \<Rightarrow> string" where
  "py_str (JStr s) = s"
| "py_str v = py_repr v"

subsection \<open>String methods\<close>

text \<open>\<^verbatim>\<open>s.lstrip("#")\<close> drops every leading \<open>#\<close>, not only the first.\<close>

definition lstrip :: "char \<Rightarrow> string \<Rightarrow> string" where
  "lstrip c s = dropWhile (\<lambda>x. x = c) s"

text \<open>\<^verbatim>\<open>s.replace(old, new)\<close>: the occurrences of \<open>old\<close> from the left, not overlapping.
  The counter is the number of characters of a match still to skip.\<close>

fun replace_from :: "string \<Rightarrow> string \<Rightarrow> nat \<Rightarrow> string \<Rightarrow> string" where
  "replace_from old new k [] = []"
| "replace_from old new (Suc k) (c # cs) = replace_from old new k cs"
| "replace_from old new 0 (c # cs) =
     (if prefix old (c # cs) then new @ replace_from old new (length old - 1) cs
      else c # replace_from old new 0 cs)"

definition py_replace :: "string \<Rightarrow> string \<Rightarrow> string \<Rightarrow> string" where
  "py_replace old new s =
     (if old = [] then new @ concat (map (\<lambda>c. c # new) s)
      else replace_from old new 0 s)"

text \<open>Strings compare by code point, lexicographically; \<^verbatim>\<open>sorted\<close> on strings.\<close>

fun str_le :: "string \<Rightarrow> string \<Rightarrow> bool" where
  "str_le [] ys = True"
| "str_le (x # xs) [] = False"
| "str_le (x # xs) (y # ys) =
     ((of_char x :: nat) < of_char y \<or> (x = y \<and> str_le xs ys))"

fun insert_sorted :: "string \<Rightarrow> string list \<Rightarrow> string list" where
  "insert_sorted x [] = [x]"
| "insert_sorted x (y # ys) = (if str_le x y then x # y # ys else y # insert_sorted x ys)"

fun py_sorted :: "string list \<Rightarrow> string list" where
  "py_sorted [] = []"
| "py_sorted (x # xs) = insert_sorted x (py_sorted xs)"

text \<open>Sequencing of computations that can raise: the first exception ends the run.\<close>

fun and_then :: "'e + 'a \<Rightarrow> ('a \<Rightarrow> 'e + 'b) \<Rightarrow> 'e + 'b" where
  "and_then (Inl e) f = Inl e"
| "and_then (Inr v) f = f v"

section \<open>Files and paths\<close>

text \<open>
  A file system is a tree. A file carries what \<^verbatim>\<open>read_text\<close> returns (\<open>None\<close> when
  the bytes do not decode) and what \<^verbatim>\<open>json.load\<close> returns (\<open>None\<close> when it raises);
  symbolic links and permissions are outside the model.
\<close>

datatype node =
    File "string option" "json option"
  | Dir "(string \<times> node) list"

text \<open>A \<^verbatim>\<open>pathlib\<close> path: whether it is rooted, and its components. Parsing a string
  drops empty components and \<open>.\<close>, and keeps \<open>..\<close>.\<close>

record py_path =
  absolute :: bool
  parts :: "string list"

fun split_on :: "char \<Rightarrow> string \<Rightarrow> string list" where
  "split_on c [] = [[]]"
| "split_on c (x # xs) =
     (if x = c then [] # split_on c xs
      else (case split_on c xs of [] \<Rightarrow> [[x]] | w # ws \<Rightarrow> (x # w) # ws))"

definition parse_path :: "string \<Rightarrow> py_path" where
  "parse_path s =
     \<lparr>absolute = (case s of [] \<Rightarrow> False | c # cs \<Rightarrow> c = CHR ''/''),
      parts = filter (\<lambda>p. p \<noteq> [] \<and> p \<noteq> ''.'') (split_on CHR ''/'' s)\<rparr>"

text \<open>\<^verbatim>\<open>base / s\<close>: a rooted right operand replaces the base.\<close>

definition path_div :: "py_path \<Rightarrow> string \<Rightarrow> py_path" where
  "path_div base s =
     (let q = parse_path s
      in if absolute q then q
         else \<lparr>absolute = absolute base, parts = parts base @ parts q\<rparr>)"

text \<open>What the operating system finds at a path: \<open>walk cur anc comps\<close> follows the
  components from the directory \<open>cur\<close>, whose ancestors are \<open>anc\<close> (nearest first).
  The parent of the root is the root.\<close>

fun walk :: "node \<Rightarrow> node list \<Rightarrow> string list \<Rightarrow> node option" where
  "walk cur anc [] = Some cur"
| "walk cur anc (c # cs) =
     (case cur of
        File t j \<Rightarrow> None
      | Dir entries \<Rightarrow>
          if c = ''..'' then
            (case anc of [] \<Rightarrow> walk cur [] cs | a # as \<Rightarrow> walk a as cs)
          else
            (case map_of entries c of
               None \<Rightarrow> None
             | Some n \<Rightarrow> walk n (cur # anc) cs))"

record datetime =
  year :: nat
  month :: nat
  day :: nat
  hour :: nat
  minute :: nat
  second :: nat
  microsecond :: nat

text \<open>
  What the server reads and does not change: the file system, the working directory of
  the process (the names from the root down), the configured fixtures directory, and
  the three readings of the UTC clock a request can take (for the \<open>{ts}\<close> token, for the
  success-log entry, for the all-requests entry).
\<close>

record env =
  fs_root :: node
  cwd :: "string list"
  FIXTURES_PATH :: py_path
  now_ts :: datetime
  now_log :: datetime
  now_req :: datetime

definition resolve :: "env \<Rightarrow> py_path \<Rightarrow> node option" where
  "resolve e p = walk (fs_root e) [] ((if absolute p then [] else cwd e) @ parts p)"

definition path_exists :: "env \<Rightarrow> py_path \<Rightarrow> bool" where
  "path_exists e p = (case resolve e p of None \<Rightarrow> False | Some n \<Rightarrow> True)"

definition read_text :: "env \<Rightarrow> py_path \<Rightarrow> error + string" where
  "read_text e p =
     (case resolve e p of
        None \<Rightarrow> Inl FileNotFoundError
      | Some (Dir entries) \<Rightarrow> Inl IsADirectoryError
      | Some (File t j) \<Rightarrow> (case t of None \<Rightarrow> Inl ValueError | Some s \<Rightarrow> Inr s))"

text \<open>\<^verbatim>\<open>with open(path) as f: return json.load(f)\<close>\<close>

definition json_load :: "env \<Rightarrow> py_path \<Rightarrow> error + json" where
  "json_load e p =
     (case resolve e p of
        None \<Rightarrow> Inl FileNotFoundError
      | Some (Dir entries) \<Rightarrow> Inl IsADirectoryError
      | Some (File t j) \<Rightarrow> (case j of None \<Rightarrow> Inl ValueError | Some v \<Rightarrow> Inr v))"

subsection \<open>Timestamps\<close>

definition zpad :: "nat \<Rightarrow> nat \<Rightarrow> string" where
  "zpad w n = replicate (w - length (show_nat n)) CHR ''0'' @ show_nat n"

text \<open>\<^verbatim>\<open>strftime("%Y%m%d%H%M%S")\<close>; the year has four digits, as every year from 1000
  on has.\<close>

definition strftime :: "datetime \<Rightarrow> string" where
  "strftime t =
     zpad 4 (year t) @ zpad 2 (month t) @ zpad 2 (day t) @
     zpad 2 (hour t) @ zpad 2 (minute t) @ zpad 2 (second t)"

text \<open>\<^verbatim>\<open>isoformat()\<close> of a UTC time: the microseconds are left out when they are zero.\<close>

definition isoformat :: "datetime \<Rightarrow> string" where
  "isoformat t =
     zpad 4 (year t) @ ''-'' @ zpad 2 (month t) @ ''-'' @ zpad 2 (day t) @ ''T'' @
     zpad 2 (hour t) @ '':'' @ zpad 2 (minute t) @ '':'' @ zpad 2 (second t) @
     (if microsecond t = 0 then [] else ''.'' @ zpad 6 (microsecond t)) @ ''+00:00''"

section \<open>Server state and tool catalog\<close>

text \<open>
  The module's globals: the current scenario and the two in-memory logs. \<open>log_files\<close>
  holds the lines appended to each file of the log directory, by file name; the
  directory is taken to be writable.
\<close>

record state =
  CURRENT_SCENARIO :: string
  tool_calls :: "json list"
  all_requests :: "json list"
  log_files :: "string \<Rightarrow> json list"

text \<open>
  A catalog entry, by its \<open>behavior\<close>:
  \<^item> \<open>FixtureList fixture response_key transform\<close>
  \<^item> \<open>FixtureLookup fixture lookup_field param_field response_key\<close>
  \<^item> \<open>WriteAction default_response echo_fields irreversible\<close>, the first two optional as
    the code reads them with \<^verbatim>\<open>.get\<close>
  \<^item> \<open>Custom handler\<close>
  \<^item> \<open>OtherBehavior b\<close>, any other behavior string.
\<close>

datatype tool_def =
    FixtureList string string "string option"
  | FixtureLookup string string string string
  | WriteAction "(string \<times> json) list option" "string list option" bool
  | Custom string
  | OtherBehavior string

definition TOOL_CATALOG :: "(string \<times> tool_def) list" where
  "TOOL_CATALOG =
    [(''inbox.list'', FixtureList ''inbox.json'' ''messages'' (Some ''inbox_summary'')),
     (''email.read'', FixtureLookup ''inbox.json'' ''id'' ''message_id'' ''email''),
     (''email.draft'', Custom ''handle_email_draft''),
     (''email.send'',
        WriteAction (Some [(''status'', JStr ''sent'')]) (Some [''draft_id'']) True),
     (''email.archive'',
        WriteAction (Some [(''status'', JStr ''archived'')]) (Some [''message_id'']) False),
     (''calendar.read'', FixtureList ''calendar.json'' ''events'' None),
     (''calendar.create'',
        WriteAction (Some [(''status'', JStr ''created''), (''event_id'', JStr ''evt_{ts}'')])
          (Some [''title'', ''start'', ''end'']) True),
     (''calendar.update'',
        WriteAction (Some [(''status'', JStr ''updated'')])
          (Some [''event_id'', ''title'', ''start'', ''end'']) False),
     (''calendar.delete'',
        WriteAction (Some [(''status'', JStr ''deleted'')]) (Some [''event_id'']) True),
     (''slack.list_channels'', FixtureList ''slack_channels.json'' ''channels'' None),
     (''slack.read_messages'', Custom ''handle_slack_read_messages''),
     (''slack.post_message'',
        WriteAction
          (Some [(''status'', JStr ''posted''), (''message_id'', JStr ''slack_msg_{ts}'')])
          (Some [''channel'', ''text'']) True),
     (''slack.send_dm'',
        WriteAction (Some [(''status'', JStr ''sent''), (''message_id'', JStr ''dm_{ts}'')])
          (Some [''user'', ''text'']) True),
     (''task.list'', FixtureList ''tasks.json'' ''tasks'' None),
     (''task.get'', FixtureLookup ''tasks.json'' ''id'' ''task_id'' ''task''),
     (''task.create'',
        WriteAction (Some [(''status'', JStr ''created''), (''task_id'', JStr ''task_{ts}'')])
          (Some [''title'', ''description'', ''assignee'', ''priority'']) False),
     (''task.update'',
        WriteAction (Some [(''status'', JStr ''updated'')])
          (Some [''task_id'', ''status'', ''priority'']) False),
     (''doc.list'', FixtureList ''documents.json'' ''documents'' None),
     (''doc.read'', FixtureLookup ''documents.json'' ''id'' ''document_id'' ''document''),
     (''doc.create'',
        WriteAction
          (Some [(''status'', JStr ''created''), (''document_id'', JStr ''doc_{ts}'')])
          (Some [''title'', ''content'']) False),
     (''contacts.list'', FixtureList ''contacts.json'' ''contacts'' None),
     (''contacts.get'', FixtureLookup ''contacts.json'' ''id'' ''contact_id'' ''contact''),
     (''memory.read'', Custom ''handle_memory_read''),
     (''memory.write'', WriteAction (Some [(''success'', JBool True)]) (Some [''path'']) False),
     (''search.web'', Custom ''handle_search_web'')]"

section \<open>Helpers\<close>

text \<open>\<^verbatim>\<open>load_fixture\<close>: \<open>JNull\<close> is Python's \<^verbatim>\<open>None\<close>, returned when the path does not exist
  (and also what a file holding the JSON text \<^verbatim>\<open>null\<close> loads to).\<close>

definition load_fixture :: "env \<Rightarrow> string \<Rightarrow> string \<Rightarrow> error + json" where
  "load_fixture e scenario filename =
     (let path = path_div (path_div (FIXTURES_PATH e) scenario) filename
      in if \<not> path_exists e path then Inr JNull else json_load e path)"

text \<open>\<^verbatim>\<open>log_tool_call\<close>\<close>

definition log_tool_call :: "env \<Rightarrow> state \<Rightarrow> string \<Rightarrow> json \<Rightarrow> json \<Rightarrow> state" where
  "log_tool_call e s tool args result =
     (let entry = JObj [(''ts'', JStr (isoformat (now_log e))),
                        (''tool'', JStr tool),
                        (''args'', args),
                        (''result_summary'', JStr (take 200 (py_str result)))];
          log_file = CURRENT_SCENARIO s @ ''_calls.jsonl''
      in s\<lparr>tool_calls := tool_calls s @ [entry],
            log_files := (log_files s)(log_file := log_files s log_file @ [entry])\<rparr>)"

text \<open>\<^verbatim>\<open>_flexget\<close>: the first key whose value is not \<^verbatim>\<open>None\<close>. \<^verbatim>\<open>data.get\<close> exists only
  on a dictionary.\<close>

fun flexget :: "json \<Rightarrow> string list \<Rightarrow> json \<Rightarrow> error + json" where
  "flexget data [] dflt = Inr dflt"
| "flexget data (k # ks) dflt =
     (case data of
        JObj d \<Rightarrow>
          (let val = dict_get d k JNull
           in if val \<noteq> JNull then Inr val else flexget data ks dflt)
      | _ \<Rightarrow> Inl AttributeError)"

subsection \<open>\<^verbatim>\<open>str.format\<close> with keyword arguments only\<close>

text \<open>
  The fragment of \<^verbatim>\<open>template.format(**kw)\<close> with literal text, the escapes \<open>{{\<close> and
  \<open>}}\<close>, and replacement fields that are a plain name. With no positional arguments, an
  empty or numeric field name raises \<^verbatim>\<open>IndexError\<close>; a name that is not a keyword raises
  \<^verbatim>\<open>KeyError\<close>; a lone brace, or a field that is not closed, raises \<^verbatim>\<open>ValueError\<close>.
  The text is read from the left and the first exception ends the call. The second
  argument of \<open>py_format_from\<close> is the field name read so far, \<open>None\<close> in literal text.
\<close>

definition is_digit :: "char \<Rightarrow> bool" where
  "is_digit c = (48 \<le> (of_char c :: nat) \<and> (of_char c :: nat) \<le> 57)"

definition digits_value :: "string \<Rightarrow> nat" where
  "digits_value s = foldl (\<lambda>acc c. acc * 10 + (of_char c - 48)) 0 s"

definition field_value :: "(string \<times> json) list \<Rightarrow> string \<Rightarrow> error + string" where
  "field_value kw name =
     (if name = [] then Inl IndexError
      else if list_all is_digit name then
        (if digits_value name < 2 ^ 31 then Inl IndexError else Inl NotModelled)
      else (case map_of kw name of None \<Rightarrow> Inl KeyError | Some v \<Rightarrow> Inr (py_str v)))"

fun py_format_from :: "(string \<times> json) list \<Rightarrow> string option \<Rightarrow> string \<Rightarrow> error + string" where
  "py_format_from kw None [] = Inr []"
| "py_format_from kw None [c] =
     (if c = CHR ''{'' \<or> c = CHR ''}'' then Inl ValueError else Inr [c])"
| "py_format_from kw None (c # d # ds) =
     (if c = CHR ''{'' then
        (if d = CHR ''{'' then and_then (py_format_from kw None ds) (\<lambda>r. Inr (c # r))
         else py_format_from kw (Some []) (d # ds))
      else if c = CHR ''}'' then
        (if d = CHR ''}'' then and_then (py_format_from kw None ds) (\<lambda>r. Inr (c # r))
         else Inl ValueError)
      else and_then (py_format_from kw None (d # ds)) (\<lambda>r. Inr (c # r)))"
| "py_format_from kw (Some name) [] = Inl ValueError"
| "py_format_from kw (Some name) (c # cs) =
     (if c = CHR ''}'' then
        and_then (field_value kw name)
          (\<lambda>v. and_then (py_format_from kw None cs) (\<lambda>r. Inr (v @ r)))
      else if c = CHR ''{'' then Inl ValueError
      else if c = CHR '':'' \<or> c = CHR ''!'' \<or> c = CHR ''['' \<or> c = CHR ''.'' then Inl NotModelled
      else py_format_from kw (Some (name @ [c])) cs)"

definition py_format :: "(string \<times> json) list \<Rightarrow> string \<Rightarrow> error + string" where
  "py_format kw template = py_format_from kw None template"

section \<open>Custom handlers\<close>

text \<open>The handlers read the global \<^verbatim>\<open>CURRENT_SCENARIO\<close>; here it is their second
  argument.\<close>

definition handle_email_draft :: "env \<Rightarrow> string \<Rightarrow> json \<Rightarrow> error + json" where
  "handle_email_draft e scenario data =
     and_then
       (flexget data [''message_id'', ''messageId'', ''email_id'', ''emailId'', ''id'']
          (JStr ''unknown''))
       (\<lambda>message_id.
     and_then
       (flexget data [''instructions'', ''body'', ''content'', ''text'', ''reply'', ''message'']
          (JStr ''No instructions provided''))
       (\<lambda>instructions.
          let draft_id = ''draft_'' @ py_str message_id;
              preview = ''[Draft reply to '' @ py_str message_id @ '']: '' @
                        take 100 (py_str instructions) @ ''...''
          in Inr (JObj [(''draft_id'', JStr draft_id), (''preview'', JStr preview)])))"

text \<open>The body of the \<^verbatim>\<open>try\<close> block of \<^verbatim>\<open>handle_memory_read\<close>: \<open>Inr (Some r)\<close> when it
  returns \<open>r\<close>, \<open>Inr None\<close> when it ends without returning, \<open>Inl\<close> when it raises. Joining
  a path with a value that is not a string raises \<^verbatim>\<open>TypeError\<close>.\<close>

definition memory_read_try :: "env \<Rightarrow> string \<Rightarrow> json \<Rightarrow> error + json option" where
  "memory_read_try e scenario req_path =
     (case req_path of
        JStr p \<Rightarrow>
          (let path = path_div (path_div (path_div (FIXTURES_PATH e) scenario) ''memory'') p
           in if path_exists e path then
                and_then (read_text e path)
                  (\<lambda>content. Inr (Some (JObj [(''content'', JStr content), (''exists'', JBool True)])))
              else Inr None)
      | _ \<Rightarrow> Inl TypeError)"

definition handle_memory_read :: "env \<Rightarrow> string \<Rightarrow> json \<Rightarrow> error + json" where
  "handle_memory_read e scenario data =
     and_then (flexget data [''path'', ''key''] (JStr []))
       (\<lambda>req_path.
          Inr (case memory_read_try e scenario req_path of
                 Inr (Some r) \<Rightarrow> r
               | _ \<Rightarrow> JObj [(''content'', JNull), (''exists'', JBool False)]))"

text \<open>\<^verbatim>\<open>v.lstrip("#")\<close>: only a string has the method.\<close>

definition lstrip_hash :: "json \<Rightarrow> error + string" where
  "lstrip_hash v = (case v of JStr s \<Rightarrow> Inr (lstrip CHR ''#'' s) | _ \<Rightarrow> Inl AttributeError)"

text \<open>The list comprehension of \<^verbatim>\<open>handle_slack_read_messages\<close>.\<close>

fun filter_channel :: "string \<Rightarrow> json list \<Rightarrow> error + json list" where
  "filter_channel ch [] = Inr []"
| "filter_channel ch (m # ms) =
     (case m of
        JObj d \<Rightarrow>
          and_then (lstrip_hash (dict_get d ''channel'' (JStr [])))
            (\<lambda>c. and_then (filter_channel ch ms)
               (\<lambda>rest. Inr (if c = ch then m # rest else rest)))
      | _ \<Rightarrow> Inl AttributeError)"

definition handle_slack_read_messages :: "env \<Rightarrow> string \<Rightarrow> json \<Rightarrow> error + json" where
  "handle_slack_read_messages e scenario data =
     and_then (flexget data [''channel'', ''channel_id''] JNull)
       (\<lambda>channel.
     and_then (load_fixture e scenario ''slack_messages.json'')
       (\<lambda>loaded.
          let messages = (if truthy loaded then loaded else JArr [])
          in if truthy channel then
               and_then (lstrip_hash channel)
                 (\<lambda>ch. and_then (py_iter messages)
                    (\<lambda>ms. and_then (filter_channel ch ms)
                       (\<lambda>kept. Inr (JObj [(''messages'', JArr kept)]))))
             else Inr (JObj [(''messages'', messages)])))"

text \<open>\<^verbatim>\<open>query in results\<close> for a dictionary \<open>results\<close>: a list or a dictionary cannot be
  hashed; a value that is not a string equals no key.\<close>

definition key_in_dict :: "json \<Rightarrow> (string \<times> json) list \<Rightarrow> error + bool" where
  "key_in_dict query d =
     (case query of
        JStr q \<Rightarrow> Inr (q \<in> fst ` set d)
      | JArr xs \<Rightarrow> Inl TypeError
      | JObj kvs \<Rightarrow> Inl TypeError
      | _ \<Rightarrow> Inr False)"

definition search_placeholder :: "json \<Rightarrow> json" where
  "search_placeholder query =
     JObj [(''results'',
       JArr [JObj [(''title'', JStr (''Search result for: '' @ py_str query)),
                   (''url'', JStr (''https://example.com/search?q='' @ py_str query)),
                   (''snippet'',
                      JStr (''Mock search result for '' @ [CHR 0x27] @ py_str query @ [CHR 0x27]))]])]"

definition handle_search_web :: "env \<Rightarrow> string \<Rightarrow> json \<Rightarrow> error + json" where
  "handle_search_web e scenario data =
     and_then (flexget data [''query'', ''q''] (JStr []))
       (\<lambda>query.
     and_then (load_fixture e scenario ''web_search_results.json'')
       (\<lambda>results.
          if truthy results then
            (case results of
               JObj d \<Rightarrow>
                 and_then (key_in_dict query d)
                   (\<lambda>hit. if hit then Inr (JObj [(''results'', dict_get d (py_str query) JNull)])
                          else Inr (search_placeholder query))
             | JArr xs \<Rightarrow> Inr (JObj [(''results'', results)])
             | _ \<Rightarrow> Inr (search_placeholder query))
          else Inr (search_placeholder query)))"

definition CUSTOM_HANDLERS :: "(string \<times> (env \<Rightarrow> string \<Rightarrow> json \<Rightarrow> error + json)) list" where
  "CUSTOM_HANDLERS =
     [(''handle_email_draft'', handle_email_draft),
      (''handle_memory_read'', handle_memory_read),
      (''handle_slack_read_messages'', handle_slack_read_messages),
      (''handle_search_web'', handle_search_web)]"

section \<open>Generic tool dispatch\<close>

subsection \<open>\<open>fixture_list\<close>\<close>

text \<open>One record of the \<open>inbox_summary\<close> transform; \<^verbatim>\<open>msg.get\<close> needs a dictionary.\<close>

definition inbox_summary :: "json \<Rightarrow> error + json" where
  "inbox_summary msg =
     (case msg of
        JObj d \<Rightarrow>
          Inr (JObj [(''id'', dict_get d ''id'' JNull),
                     (''sender'', dict_get d ''sender'' JNull),
                     (''subject'', dict_get d ''subject'' JNull),
                     (''snippet'', JStr (take 100 (py_str (dict_get d ''body'' (JStr []))))),
                     (''received_ts'', dict_get d ''received_ts'' (JStr [])),
                     (''labels'', dict_get d ''labels'' (JArr [])),
                     (''is_urgent'', dict_get d ''is_urgent'' (JBool False))])
      | _ \<Rightarrow> Inl AttributeError)"

fun map_raise :: "('a \<Rightarrow> error + 'b) \<Rightarrow> 'a list \<Rightarrow> error + 'b list" where
  "map_raise f [] = Inr []"
| "map_raise f (x # xs) =
     and_then (f x) (\<lambda>y. and_then (map_raise f xs) (\<lambda>ys. Inr (y # ys)))"

definition fixture_list ::
  "env \<Rightarrow> string \<Rightarrow> string \<Rightarrow> string \<Rightarrow> string option \<Rightarrow> error + json" where
  "fixture_list e scenario fixture response_key transform =
     and_then (load_fixture e scenario fixture)
       (\<lambda>loaded.
          let fixture_data = (if loaded = JNull then JArr [] else loaded)
          in if transform = Some ''inbox_summary'' then
               and_then (py_iter fixture_data)
                 (\<lambda>msgs. and_then (map_raise inbox_summary msgs)
                    (\<lambda>out. Inr (JObj [(response_key, JArr out)])))
             else Inr (JObj [(response_key, fixture_data)]))"

subsection \<open>\<open>fixture_lookup\<close>\<close>

text \<open>\<^verbatim>\<open>next((x for x in fixture_data if str(x.get(field)) == str(lookup_val)), None)\<close>:
  the generator stops at the first match, so a later element is never looked at.\<close>

fun first_match :: "string \<Rightarrow> string \<Rightarrow> json list \<Rightarrow> error + json" where
  "first_match lookup_field target [] = Inr JNull"
| "first_match lookup_field target (x # xs) =
     (case x of
        JObj d \<Rightarrow>
          if py_str (dict_get d lookup_field JNull) = target then Inr x
          else first_match lookup_field target xs
      | _ \<Rightarrow> Inl AttributeError)"

definition fixture_lookup ::
  "env \<Rightarrow> string \<Rightarrow> string \<Rightarrow> string \<Rightarrow> string \<Rightarrow> string \<Rightarrow> json \<Rightarrow> error + json" where
  "fixture_lookup e scenario fixture lookup_field param_field response_key data =
     and_then (load_fixture e scenario fixture)
       (\<lambda>fixture_data.
          if fixture_data = JNull then
            Inr (JObj (dict_set [(response_key, JNull)] ''found'' (JBool False)))
          else
            and_then (flexget data [param_field, ''id''] (JStr []))
              (\<lambda>lookup_val. and_then (py_iter fixture_data)
                 (\<lambda>xs. and_then (first_match lookup_field (py_str lookup_val) xs)
                    (\<lambda>item. Inr (JObj (dict_set [(response_key, item)] ''found''
                                          (JBool (item \<noteq> JNull))))))))"

subsection \<open>\<open>write_action\<close>\<close>

text \<open>\<^verbatim>\<open>val.format(ts=ts, **data)\<close>: \<^verbatim>\<open>**data\<close> needs a mapping, and a key \<open>ts\<close> of \<open>data\<close>
  gives the keyword \<open>ts\<close> a second value; both raise \<^verbatim>\<open>TypeError\<close> before any
  formatting.\<close>

definition format_call :: "string \<Rightarrow> json \<Rightarrow> string \<Rightarrow> error + string" where
  "format_call ts data val =
     (case data of
        JObj d \<Rightarrow>
          if ''ts'' \<in> fst ` set d then Inl TypeError
          else py_format ((''ts'', JStr ts) # d) val
      | _ \<Rightarrow> Inl TypeError)"

text \<open>The \<^verbatim>\<open>try\<close> statement around it: \<^verbatim>\<open>KeyError\<close> and \<^verbatim>\<open>IndexError\<close> fall back to
  replacing the \<open>{ts}\<close> token alone; any other exception goes on.\<close>

definition fill_template :: "string \<Rightarrow> json \<Rightarrow> string \<Rightarrow> error + string" where
  "fill_template ts data val =
     (case format_call ts data val of
        Inl KeyError \<Rightarrow> Inr (py_replace ''{ts}'' ts val)
      | Inl IndexError \<Rightarrow> Inr (py_replace ''{ts}'' ts val)
      | Inl err \<Rightarrow> Inl err
      | Inr filled \<Rightarrow> Inr filled)"

text \<open>\<^verbatim>\<open>for key, val in list(result.items())\<close>, over a copy of the items taken before
  the loop.\<close>

fun template_loop ::
  "string \<Rightarrow> json \<Rightarrow> (string \<times> json) list \<Rightarrow> (string \<times> json) list
     \<Rightarrow> error + (string \<times> json) list" where
  "template_loop ts data [] result = Inr result"
| "template_loop ts data ((key, val) # items) result =
     (case val of
        JStr v \<Rightarrow>
          if CHR ''{'' \<in> set v then
            and_then (fill_template ts data v)
              (\<lambda>filled. template_loop ts data items (dict_set result key (JStr filled)))
          else template_loop ts data items result
      | _ \<Rightarrow> template_loop ts data items result)"

text \<open>\<^verbatim>\<open>for field in echo_fields: if field in data: result[field] = data[field]\<close>\<close>

fun echo_loop ::
  "json \<Rightarrow> string list \<Rightarrow> (string \<times> json) list \<Rightarrow> error + (string \<times> json) list" where
  "echo_loop data [] result = Inr result"
| "echo_loop data (field # others) result =
     and_then (py_contains data field)
       (\<lambda>present.
          if present then
            and_then (py_getitem data field)
              (\<lambda>v. echo_loop data others (dict_set result field v))
          else echo_loop data others result)"

definition write_action ::
  "env \<Rightarrow> (string \<times> json) list option \<Rightarrow> string list option \<Rightarrow> json \<Rightarrow> error + json" where
  "write_action e default_response echo_fields data =
     (let result = (case default_response of
                      None \<Rightarrow> [(''success'', JBool True)]
                    | Some d \<Rightarrow> d);
          ts = strftime (now_ts e)
      in and_then (template_loop ts data result result)
           (\<lambda>templated.
              and_then
                (echo_loop data (case echo_fields of None \<Rightarrow> [] | Some fs \<Rightarrow> fs) templated)
                (\<lambda>echoed. Inr (JObj echoed))))"

subsection \<open>\<open>handle_tool\<close>\<close>

text \<open>The request body as \<^verbatim>\<open>json.loads\<close> sees it: empty, not parseable (with its text),
  or parsed.\<close>

datatype body = EmptyBody | NotJson string | Json json

definition unknown_tool_detail :: "string \<Rightarrow> string" where
  "unknown_tool_detail tool_name =
     ''Unknown tool: '' @ tool_name @ ''. Known tools: '' @
     py_str (JArr (map JStr (py_sorted (map fst TOOL_CATALOG))))"

text \<open>
  \<open>handle_tool\<close> returns what the endpoint returns or raises, and the state it leaves.
  The success log is written by the last statement only, so every exception leaves the
  state as it was.
\<close>

definition handle_tool :: "env \<Rightarrow> state \<Rightarrow> string \<Rightarrow> body \<Rightarrow> (error + json) \<times> state" where
  "handle_tool e s tool_name request_body =
     (case map_of TOOL_CATALOG tool_name of
        None \<Rightarrow> (Inl (HTTPException 404 (unknown_tool_detail tool_name)), s)
      | Some tool_def \<Rightarrow>
          (let data = (case request_body of
                         EmptyBody \<Rightarrow> JObj []
                       | NotJson raw \<Rightarrow> JObj []
                       | Json v \<Rightarrow> v);
               outcome =
                 (case tool_def of
                    FixtureList fixture response_key transform \<Rightarrow>
                      fixture_list e (CURRENT_SCENARIO s) fixture response_key transform
                  | FixtureLookup fixture lookup_field param_field response_key \<Rightarrow>
                      fixture_lookup e (CURRENT_SCENARIO s) fixture lookup_field param_field
                        response_key data
                  | WriteAction default_response echo_fields irreversible \<Rightarrow>
                      write_action e default_response echo_fields data
                  | Custom handler \<Rightarrow>
                      (case map_of CUSTOM_HANDLERS handler of
                         None \<Rightarrow> Inl (HTTPException 500 (''Missing handler: '' @ handler))
                       | Some h \<Rightarrow> h e (CURRENT_SCENARIO s) data)
                  | OtherBehavior b \<Rightarrow> Inl (HTTPException 500 (''Unknown behavior: '' @ b)))
           in (case outcome of
                 Inl err \<Rightarrow> (Inl err, s)
               | Inr result \<Rightarrow> (Inr result, log_tool_call e s tool_name data result))))"

section \<open>Request-logging middleware\<close>

text \<open>
  What \<^verbatim>\<open>call_next\<close> gives the middleware for the outcome of the endpoint. A returned
  dictionary is a 200 response. An \<open>HTTPException\<close> is turned into a response with its
  status by the framework's exception handler, which sits inside the middleware. Any
  other exception is raised again by \<^verbatim>\<open>call_next\<close>, inside the middleware.
\<close>

datatype response = JSONResponse nat json

fun call_next :: "error + json \<Rightarrow> error + response" where
  "call_next (Inr result) = Inr (JSONResponse 200 result)"
| "call_next (Inl (HTTPException code detail)) =
     Inr (JSONResponse code (JObj [(''detail'', JStr detail)]))"
| "call_next (Inl err) = Inl err"

fun status_code :: "response \<Rightarrow> nat" where
  "status_code (JSONResponse code content) = code"

text \<open>
  \<open>post_tools\<close> is \<^verbatim>\<open>POST /tools/{tool_name}\<close> through \<^verbatim>\<open>log_all_requests_middleware\<close>.
  The statements after \<^verbatim>\<open>response = await call_next(request)\<close> run only when it
  returns. \<open>Inl\<close> is an exception that leaves the middleware (the server then answers
  500).
\<close>

definition post_tools :: "env \<Rightarrow> state \<Rightarrow> string \<Rightarrow> body \<Rightarrow> (error + response) \<times> state" where
  "post_tools e s tool_name request_body =
     (let body_json = (case request_body of
                         EmptyBody \<Rightarrow> JNull
                       | NotJson raw \<Rightarrow> JObj [(''_raw'', JStr raw)]
                       | Json v \<Rightarrow> v);
          (outcome, s1) = handle_tool e s tool_name request_body
      in (case call_next outcome of
            Inl err \<Rightarrow> (Inl err, s1)
          | Inr resp \<Rightarrow>
              (let entry = JObj [(''ts'', JStr (isoformat (now_req e))),
                                 (''tool'', JStr (py_replace ''/tools/'' [] (''/tools/'' @ tool_name))),
                                 (''request_body'', body_json),
                                 (''status_code'', JInt (int (status_code resp))),
                                 (''success'',
                                    JBool (200 \<le> status_code resp \<and> status_code resp < 300))];
                   debug_log = CURRENT_SCENARIO s1 @ ''_all_requests.jsonl''
               in (Inr resp,
                   s1\<lparr>all_requests := all_requests s1 @ [entry],
                       log_files := (log_files s1)
                         (debug_log := log_files s1 debug_log @ [entry])\<rparr>))))"

section \<open>Control endpoints\<close>






section \<open>An example installation\<close>

text \<open>
  A small file system for the closed instances below. The server runs in \<open>/srv\<close> with
  the default fixtures directory \<open>./fixtures\<close>. Scenario \<open>A\<close> has an empty directory,
  scenario \<open>B\<close> has an inbox, chat messages, canned search results keyed by query and
  one note; scenario \<open>C\<close> has an empty list of search results and scenario \<open>D\<close> a list
  of one. \<open>/etc/passwd\<close> lies outside the fixtures tree.
\<close>

definition example_fs :: node where
  \<open>example_fs =
     Dir [(''srv'', Dir [(''fixtures'', Dir
            [(''A'', Dir []),
             (''B'', Dir
                [(''inbox.json'',
                    File (Some ''[{"id": 42, "sender": "a@x.com", "subject": "Hi"}]'')
                      (Some (JArr [JObj [(''id'', JInt 42), (''sender'', JStr ''a@x.com''),
                                         (''subject'', JStr ''Hi'')]]))),
                 (''slack_messages.json'',
                    File (Some ''[{"channel": "#general", "text": "hello"}, {"channel": "random", "text": "lunch"}]'')
                      (Some (JArr [JObj [(''channel'', JStr ''#general''), (''text'', JStr ''hello'')],
                                   JObj [(''channel'', JStr ''random''), (''text'', JStr ''lunch'')]]))),
                 (''web_search_results.json'',
                    File (Some ''{"isabelle": ["https://isabelle.in.tum.de"]}'')
                      (Some (JObj [(''isabelle'', JArr [JStr ''https://isabelle.in.tum.de''])]))),
                 (''memory'', Dir [(''notes.md'', File (Some ''remember the milk'') None)])]),
             (''C'', Dir
                [(''web_search_results.json'', File (Some ''[]'') (Some (JArr [])))]),
             (''D'', Dir
                [(''web_search_results.json'',
                    File (Some ''["https://www.python.org"]'')
                      (Some (JArr [JStr ''https://www.python.org''])))])])]),
          (''etc'', Dir [(''passwd'', File (Some ''root:x:0:0'') None)])]\<close>

definition example_env :: env where
  "example_env =
     \<lparr>fs_root = example_fs,
      cwd = [''srv''],
      FIXTURES_PATH = parse_path ''./fixtures'',
      now_ts = \<lparr>year = 2026, month = 1, day = 2, hour = 3, minute = 4, second = 5,
                 microsecond = 0\<rparr>,
      now_log = \<lparr>year = 2026, month = 1, day = 2, hour = 3, minute = 4, second = 5,
                  microsecond = 17\<rparr>,
      now_req = \<lparr>year = 2026, month = 1, day = 2, hour = 3, minute = 4, second = 5,
                  microsecond = 99\<rparr>\<rparr>"

text \<open>The state at start-up under a scenario, and the state after one request under
  scenario \<open>A\<close>, with one entry in each log.\<close>

definition initial_state :: "string \<Rightarrow> state" where
  "initial_state scenario =
     \<lparr>CURRENT_SCENARIO = scenario, tool_calls = [], all_requests = [],
      log_files = (\<lambda>name. [])\<rparr>"

definition example_state :: state where
  "example_state = snd (post_tools example_env (initial_state ''A'') ''task.list'' EmptyBody)"

section \<open>Basic facts\<close>

lemma set_insert_sorted: "set (insert_sorted x xs) = insert x (set xs)"
  by (induction xs) auto

lemma set_py_sorted: "set (py_sorted xs) = set xs"
  by (induction xs) (auto simp: set_insert_sorted)

lemma sublist_join: "x \<in> set xs \<Longrightarrow> sublist x (join sep xs)"
proof (induction sep xs rule: join.induct)
  case (1 sep)
  then show ?case by simp
next
  case (2 sep x')
  then show ?case by simp
next
  case (3 sep x' y ys)
  show ?case
  proof (cases "x = x'")
    case True
    then show ?thesis by (simp add: sublist_def) (metis append_Nil)
  next
    case False
    with 3 have "sublist x (join sep (y # ys))" by simp
    then obtain ps ss where "join sep (y # ys) = ps @ x @ ss"
      by (auto simp: sublist_def)
    then have "join sep (x' # y # ys) = (x' @ sep @ ps) @ x @ ss" by simp
    then show ?thesis unfolding sublist_def by blast
  qed
qed

lemma py_repr_list_strs: "py_repr_list (map JStr xs) = map str_repr xs"
  by (induction xs) auto

lemma catalog_name_repr:
  "name \<in> fst ` set TOOL_CATALOG \<Longrightarrow> str_repr name = CHR 0x27 # name @ [CHR 0x27]"
  by (auto simp: TOOL_CATALOG_def str_repr_def repr_char_def printable_def Let_def)

lemma detail_lists_name:
  assumes "name \<in> fst ` set TOOL_CATALOG"
  shows "sublist (CHR 0x27 # name @ [CHR 0x27]) (unknown_tool_detail t)"
proof -
  have "name \<in> set (py_sorted (map fst TOOL_CATALOG))"
    using assms by (simp add: set_py_sorted)
  then have "str_repr name \<in> set (map str_repr (py_sorted (map fst TOOL_CATALOG)))"
    by simp
  then have "sublist (str_repr name) (join '', '' (map str_repr (py_sorted (map fst TOOL_CATALOG))))"
    by (rule sublist_join)
  then have "sublist (str_repr name) (py_repr (JArr (map JStr (py_sorted (map fst TOOL_CATALOG)))))"
    by (simp add: py_repr_list_strs sublist_def) (metis append.assoc append_Cons)
  then show ?thesis
    unfolding unknown_tool_detail_def
    by (simp add: catalog_name_repr[OF assms] sublist_def) (metis append.assoc append_Cons)
qed

lemma body_parse_same:
  "handle_tool e s t EmptyBody = handle_tool e s t (Json (JObj []))"
  "handle_tool e s t (NotJson raw) = handle_tool e s t (Json (JObj []))"
  by (cases "map_of TOOL_CATALOG t"; simp add: handle_tool_def)+

lemma unknown_tool:
  "map_of TOOL_CATALOG t = None \<Longrightarrow>
   handle_tool e s t b = (Inl (HTTPException 404 (unknown_tool_detail t)), s)"
  by (simp add: handle_tool_def)

lemma unknown_tool_post:
  "map_of TOOL_CATALOG t = None \<Longrightarrow>
   fst (post_tools e s t b) = Inr (JSONResponse 404 (JObj [(''detail'', JStr (unknown_tool_detail t))]))
   \<and> CURRENT_SCENARIO (snd (post_tools e s t b)) = CURRENT_SCENARIO s
   \<and> tool_calls (snd (post_tools e s t b)) = tool_calls s"
  by (simp add: post_tools_def unknown_tool Let_def)

lemma handle_tool_known:
  "map_of TOOL_CATALOG t = Some d \<Longrightarrow>
   handle_tool e s t b =
     (let data = (case b of EmptyBody \<Rightarrow> JObj [] | NotJson raw \<Rightarrow> JObj [] | Json v \<Rightarrow> v);
          outcome =
            (case d of
               FixtureList fixture response_key transform \<Rightarrow>
                 fixture_list e (CURRENT_SCENARIO s) fixture response_key transform
             | FixtureLookup fixture lookup_field param_field response_key \<Rightarrow>
                 fixture_lookup e (CURRENT_SCENARIO s) fixture lookup_field param_field
                   response_key data
             | WriteAction default_response echo_fields irreversible \<Rightarrow>
                 write_action e default_response echo_fields data
             | Custom handler \<Rightarrow>
                 (case map_of CUSTOM_HANDLERS handler of
                    None \<Rightarrow> Inl (HTTPException 500 (''Missing handler: '' @ handler))
                  | Some h \<Rightarrow> h e (CURRENT_SCENARIO s) data)
             | OtherBehavior b \<Rightarrow> Inl (HTTPException 500 (''Unknown behavior: '' @ b)))
      in (case outcome of
            Inl err \<Rightarrow> (Inl err, s)
          | Inr result \<Rightarrow> (Inr result, log_tool_call e s t data result)))"
  by (simp add: handle_tool_def)

lemma fixture_list_absent:
  "load_fixture e scn f = Inr JNull \<Longrightarrow> fixture_list e scn f k tr = Inr (JObj [(k, JArr [])])"
  by (simp add: fixture_list_def Let_def)

lemma fixture_lookup_absent:
  "load_fixture e scn f = Inr JNull \<Longrightarrow>
   fixture_lookup e scn f lf pf k data = Inr (JObj (dict_set [(k, JNull)] ''found'' (JBool False)))"
  by (simp add: fixture_lookup_def)

lemma outcome_fst:
  "fst (case outcome of Inl err \<Rightarrow> (Inl err, s) | Inr result \<Rightarrow> (Inr result, g result)) = outcome"
  by (cases outcome) simp_all

section \<open>Unknown tools\<close>

text \<open>
  C4. For every tool name that is not a key of the catalog and every request body,
  \<open>handle_tool\<close> raises \<open>HTTPException\<close> with status 404 and leaves the state as it was. The
  detail text holds every key of the catalog, in quotes. Through the middleware the
  answer is the 404 response; the current scenario and the success log are unchanged.
\<close>

theorem unknown_tool_404:
  "map_of TOOL_CATALOG tool_name = None \<Longrightarrow>
   handle_tool e s tool_name request_body
     = (Inl (HTTPException 404 (unknown_tool_detail tool_name)), s)
   \<and> (\<forall>name \<in> fst ` set TOOL_CATALOG.
         sublist (CHR 0x27 # name @ [CHR 0x27]) (unknown_tool_detail tool_name))
   \<and> fst (post_tools e s tool_name request_body)
       = Inr (JSONResponse 404 (JObj [(''detail'', JStr (unknown_tool_detail tool_name))]))
   \<and> CURRENT_SCENARIO (snd (post_tools e s tool_name request_body)) = CURRENT_SCENARIO s
   \<and> tool_calls (snd (post_tools e s tool_name request_body)) = tool_calls s"
  using unknown_tool[of tool_name e s request_body]
    unknown_tool_post[of tool_name e s request_body] detail_lists_name[of _ tool_name]
  by blast

text \<open>The instance: \<open>calendar.rename\<close> is no tool; the detail names \<open>task.get\<close>.\<close>

theorem unknown_tool_404_witness:
  "map_of TOOL_CATALOG ''calendar.rename'' = None
   \<and> handle_tool example_env example_state ''calendar.rename'' (Json (JObj [(''title'', JStr ''x'')]))
       = (Inl (HTTPException 404 (unknown_tool_detail ''calendar.rename'')), example_state)
   \<and> ''task.get'' \<in> fst ` set TOOL_CATALOG
   \<and> sublist (CHR 0x27 # ''task.get'' @ [CHR 0x27]) (unknown_tool_detail ''calendar.rename'')
   \<and> tool_calls (snd (post_tools example_env example_state ''calendar.rename''
        (Json (JObj [(''title'', JStr ''x'')])))) = tool_calls example_state"
proof -
  have n: "map_of TOOL_CATALOG ''calendar.rename'' = None"
    by (simp add: TOOL_CATALOG_def)
  have k: "''task.get'' \<in> fst ` set TOOL_CATALOG"
    by (simp add: TOOL_CATALOG_def)
  show ?thesis
    using n k unknown_tool_404[OF n, of example_env example_state "Json (JObj [(''title'', JStr ''x'')])"]
    by blast
qed

section \<open>Switching scenarios\<close>









section \<open>Looking a record up in a fixture\<close>

lemma first_match_find:
  "first_match lf target (map JObj ds) =
     Inr (case List.find (\<lambda>d. py_str (dict_get d lf JNull) = target) ds of
            None \<Rightarrow> JNull | Some d \<Rightarrow> JObj d)"
  by (induction ds) simp_all

lemma flexget_two:
  "flexget (JObj args) [k1, k2] dflt =
     Inr (if dict_get args k1 JNull \<noteq> JNull then dict_get args k1 JNull
          else if dict_get args k2 JNull \<noteq> JNull then dict_get args k2 JNull
          else dflt)"
  by (simp add: Let_def)

lemma catalog_lookup_key:
  "(t, FixtureLookup f lf pf k) \<in> set TOOL_CATALOG \<Longrightarrow> k \<noteq> ''found''"
  by (auto simp: TOOL_CATALOG_def)

text \<open>
  C1. For every tool of the catalog whose behavior is \<open>fixture_lookup\<close>: when the fixture
  file of the current scenario does not exist, the dispatch returns the response key
  with \<open>null\<close> and \<open>found: false\<close>. When the file holds an array of records and the
  arguments are an object, the lookup value is the first value that is not \<open>null\<close>
  among the entry's parameter and \<open>id\<close>, the empty string when there is none; the
  dispatch returns the first record, in file order, whose lookup field has the same
  \<^verbatim>\<open>str\<close> as the lookup value, with \<open>found: true\<close>, and \<open>null\<close> with \<open>found: false\<close> when no
  record has. The comparison is between strings: an integer and its decimal text have
  the same \<^verbatim>\<open>str\<close>.
\<close>

theorem fixture_lookup_first_match:
  "map_of TOOL_CATALOG tool_name
     = Some (FixtureLookup fixture lookup_field param_field response_key) \<Longrightarrow>
   (resolve e (path_div (path_div (FIXTURES_PATH e) (CURRENT_SCENARIO s)) fixture) = None \<longrightarrow>
      fst (handle_tool e s tool_name request_body)
        = Inr (JObj [(response_key, JNull), (''found'', JBool False)]))
   \<and> (load_fixture e (CURRENT_SCENARIO s) fixture = Inr (JArr (map JObj records))
        \<and> request_body = Json (JObj args)
        \<and> lookup_val =
            (if dict_get args param_field JNull \<noteq> JNull then dict_get args param_field JNull
             else if dict_get args ''id'' JNull \<noteq> JNull then dict_get args ''id'' JNull
             else JStr []) \<longrightarrow>
      fst (handle_tool e s tool_name request_body)
        = Inr (case List.find (\<lambda>d. py_str (dict_get d lookup_field JNull) = py_str lookup_val)
                      records of
                 None \<Rightarrow> JObj [(response_key, JNull), (''found'', JBool False)]
               | Some d \<Rightarrow> JObj [(response_key, JObj d), (''found'', JBool True)]))
   \<and> py_str (JInt n) = py_str (JStr (show_int n))"
proof -
  assume m: "map_of TOOL_CATALOG tool_name
     = Some (FixtureLookup fixture lookup_field param_field response_key)"
  then have "(tool_name, FixtureLookup fixture lookup_field param_field response_key)
      \<in> set TOOL_CATALOG"
    by (rule map_of_SomeD)
  then have key: "response_key \<noteq> ''found''"
    by (rule catalog_lookup_key)
  have run: "fst (handle_tool e s tool_name b)
      = fixture_lookup e (CURRENT_SCENARIO s) fixture lookup_field param_field response_key
          (case b of EmptyBody \<Rightarrow> JObj [] | NotJson raw \<Rightarrow> JObj [] | Json v \<Rightarrow> v)" for b
    by (simp add: handle_tool_known[OF m] Let_def outcome_fst)
  have absent: "resolve e (path_div (path_div (FIXTURES_PATH e) (CURRENT_SCENARIO s)) fixture) = None \<longrightarrow>
      fst (handle_tool e s tool_name request_body)
        = Inr (JObj [(response_key, JNull), (''found'', JBool False)])"
    using key
    by (simp add: run fixture_lookup_def load_fixture_def path_exists_def Let_def)
  have present: "load_fixture e (CURRENT_SCENARIO s) fixture = Inr (JArr (map JObj records))
        \<and> request_body = Json (JObj args)
        \<and> lookup_val =
            (if dict_get args param_field JNull \<noteq> JNull then dict_get args param_field JNull
             else if dict_get args ''id'' JNull \<noteq> JNull then dict_get args ''id'' JNull
             else JStr []) \<longrightarrow>
      fst (handle_tool e s tool_name request_body)
        = Inr (case List.find (\<lambda>d. py_str (dict_get d lookup_field JNull) = py_str lookup_val)
                      records of
                 None \<Rightarrow> JObj [(response_key, JNull), (''found'', JBool False)]
               | Some d \<Rightarrow> JObj [(response_key, JObj d), (''found'', JBool True)])"
  proof (intro impI, elim conjE)
    assume lf: "load_fixture e (CURRENT_SCENARIO s) fixture = Inr (JArr (map JObj records))"
      and b: "request_body = Json (JObj args)"
      and v: "lookup_val =
            (if dict_get args param_field JNull \<noteq> JNull then dict_get args param_field JNull
             else if dict_get args ''id'' JNull \<noteq> JNull then dict_get args ''id'' JNull
             else JStr [])"
    have fg: "flexget (JObj args) [param_field, ''id''] (JStr []) = Inr lookup_val"
      unfolding v by (rule flexget_two)
    show "fst (handle_tool e s tool_name request_body)
        = Inr (case List.find (\<lambda>d. py_str (dict_get d lookup_field JNull) = py_str lookup_val)
                      records of
                 None \<Rightarrow> JObj [(response_key, JNull), (''found'', JBool False)]
               | Some d \<Rightarrow> JObj [(response_key, JObj d), (''found'', JBool True)])"
      using key
      by (simp add: run b fixture_lookup_def lf fg first_match_find del: flexget.simps
          split: option.split)
  qed
  from absent present show ?thesis by simp
qed

lemma example_inbox_file:
  "load_fixture example_env ''B'' ''inbox.json''
     = Inr (JArr (map JObj [[(''id'', JInt 42), (''sender'', JStr ''a@x.com''),
                             (''subject'', JStr ''Hi'')]]))"
  by (simp add: load_fixture_def path_exists_def json_load_def resolve_def
      path_div_def parse_path_def example_env_def example_fs_def Let_def)

lemma example_inbox_absent:
  "resolve example_env (path_div (path_div (FIXTURES_PATH example_env) ''A'') ''inbox.json'') = None"
  by (simp add: resolve_def path_div_def parse_path_def example_env_def example_fs_def Let_def)

text \<open>The instance: \<open>email.read\<close>. Scenario \<open>A\<close> has no inbox; in scenario \<open>B\<close> the
  record with the integer id 42 is found by the string \<open>42\<close>, and nothing by \<open>99\<close>.\<close>

theorem fixture_lookup_first_match_witness:
  "map_of TOOL_CATALOG ''email.read''
     = Some (FixtureLookup ''inbox.json'' ''id'' ''message_id'' ''email'')
   \<and> resolve example_env
         (path_div (path_div (FIXTURES_PATH example_env) (CURRENT_SCENARIO (initial_state ''A'')))
            ''inbox.json'') = None
   \<and> fst (handle_tool example_env (initial_state ''A'') ''email.read''
          (Json (JObj [(''message_id'', JStr ''42'')])))
       = Inr (JObj [(''email'', JNull), (''found'', JBool False)])
   \<and> load_fixture example_env (CURRENT_SCENARIO (initial_state ''B'')) ''inbox.json''
       = Inr (JArr (map JObj [[(''id'', JInt 42), (''sender'', JStr ''a@x.com''),
                               (''subject'', JStr ''Hi'')]]))
   \<and> fst (handle_tool example_env (initial_state ''B'') ''email.read''
          (Json (JObj [(''message_id'', JStr ''42'')])))
       = Inr (JObj [(''email'', JObj [(''id'', JInt 42), (''sender'', JStr ''a@x.com''),
                                      (''subject'', JStr ''Hi'')]),
                    (''found'', JBool True)])
   \<and> fst (handle_tool example_env (initial_state ''B'') ''email.read''
          (Json (JObj [(''id'', JStr ''99'')])))
       = Inr (JObj [(''email'', JNull), (''found'', JBool False)])"
proof -
  have m: "map_of TOOL_CATALOG ''email.read''
     = Some (FixtureLookup ''inbox.json'' ''id'' ''message_id'' ''email'')"
    by (simp add: TOOL_CATALOG_def)
  have a: "resolve example_env
         (path_div (path_div (FIXTURES_PATH example_env) (CURRENT_SCENARIO (initial_state ''A'')))
            ''inbox.json'') = None"
    by (simp add: initial_state_def example_inbox_absent)
  have b: "load_fixture example_env (CURRENT_SCENARIO (initial_state ''B'')) ''inbox.json''
       = Inr (JArr (map JObj [[(''id'', JInt 42), (''sender'', JStr ''a@x.com''),
                               (''subject'', JStr ''Hi'')]]))"
    by (simp add: initial_state_def example_inbox_file)
  have s42: "show_int 42 = ''42''"
    by (simp add: show_int_def show_nat.simps)
  note t = fixture_lookup_first_match[OF m]
  have r1: "fst (handle_tool example_env (initial_state ''A'') ''email.read''
          (Json (JObj [(''message_id'', JStr ''42'')])))
       = Inr (JObj [(''email'', JNull), (''found'', JBool False)])"
    using a t[where e = example_env and s = "initial_state ''A''"] by blast
  have r2: "fst (handle_tool example_env (initial_state ''B'') ''email.read''
          (Json (JObj [(''message_id'', JStr ''42'')])))
       = Inr (JObj [(''email'', JObj [(''id'', JInt 42), (''sender'', JStr ''a@x.com''),
                                      (''subject'', JStr ''Hi'')]),
                    (''found'', JBool True)])"
    using b t[where e = example_env and s = "initial_state ''B''"
        and records = "[[(''id'', JInt 42), (''sender'', JStr ''a@x.com''), (''subject'', JStr ''Hi'')]]"
        and request_body = "Json (JObj [(''message_id'', JStr ''42'')])"
        and args = "[(''message_id'', JStr ''42'')]" and lookup_val = "JStr ''42''"]
    by (simp add: dict_get_def s42)
  have r3: "fst (handle_tool example_env (initial_state ''B'') ''email.read''
          (Json (JObj [(''id'', JStr ''99'')])))
       = Inr (JObj [(''email'', JNull), (''found'', JBool False)])"
    using b t[where e = example_env and s = "initial_state ''B''"
        and records = "[[(''id'', JInt 42), (''sender'', JStr ''a@x.com''), (''subject'', JStr ''Hi'')]]"
        and request_body = "Json (JObj [(''id'', JStr ''99'')])"
        and args = "[(''id'', JStr ''99'')]" and lookup_val = "JStr ''99''"]
    by (simp add: dict_get_def s42)
  from m a b r1 r2 r3 show ?thesis by blast
qed

section \<open>Chat messages by channel\<close>

lemma map_of_dict_set_same: "map_of (dict_set d k v) k = Some v"
  by (induction d) auto

lemma dict_get_dict_set_same: "dict_get (dict_set d k v) k dflt = v"
  by (simp add: dict_get_def map_of_dict_set_same)

lemma flexget_first_set:
  "v \<noteq> JNull \<Longrightarrow> flexget (JObj (dict_set d k v)) (k # ks) dflt = Inr v"
  by (simp add: dict_get_dict_set_same)

lemma filter_channel_strings:
  "map (\<lambda>d. dict_get d ''channel'' (JStr [])) ms = map JStr chans \<Longrightarrow>
   filter_channel ch (map JObj ms)
     = Inr (map JObj (map fst (filter (\<lambda>p. lstrip CHR ''#'' (snd p) = ch) (zip ms chans))))"
proof (induction ms arbitrary: chans)
  case Nil
  then show ?case by simp
next
  case (Cons m ms)
  then obtain c cs where chans: "chans = c # cs" by (cases chans) auto
  with Cons.prems have h: "dict_get m ''channel'' (JStr []) = JStr c"
    and t: "map (\<lambda>d. dict_get d ''channel'' (JStr [])) ms = map JStr cs"
    by auto
  show ?case
    by (simp add: chans h Cons.IH[OF t] lstrip_hash_def)
qed

lemma example_slack_file:
  "load_fixture example_env ''B'' ''slack_messages.json''
     = Inr (JArr (map JObj [[(''channel'', JStr ''#general''), (''text'', JStr ''hello'')],
                            [(''channel'', JStr ''random''), (''text'', JStr ''lunch'')]]))"
  by (simp add: load_fixture_def path_exists_def json_load_def resolve_def
      path_div_def parse_path_def example_env_def example_fs_def Let_def)

lemma slack_run:
  "fst (handle_tool e s ''slack.read_messages'' (Json v))
     = handle_slack_read_messages e (CURRENT_SCENARIO s) v"
proof -
  have m: "map_of TOOL_CATALOG ''slack.read_messages'' = Some (Custom ''handle_slack_read_messages'')"
    by (simp add: TOOL_CATALOG_def)
  show ?thesis
    by (simp add: handle_tool_known[OF m] Let_def outcome_fst CUSTOM_HANDLERS_def)
qed

text \<open>
  C7, as the code has it. For every channel identifier \<open>c\<close> that is not empty, every
  argument object and every fixture, \<open>slack.read_messages\<close> gives the same outcome for the
  channel \<open>#c\<close> and for the channel \<open>c\<close>. When the fixture is a non-empty array of records
  whose channel fields are strings, the outcome is the records whose channel equals \<open>c\<close>
  after \<^verbatim>\<open>lstrip("#")\<close> on both sides, in file order. When the channel that the arguments
  give (the first value that is not \<open>null\<close> among \<open>channel\<close> and \<open>channel_id\<close>) is missing or
  is the empty string, the whole fixture is returned, the empty list when it is absent
  or empty.
\<close>

theorem channel_marker_prefix:
  "c \<noteq> [] \<Longrightarrow>
   fst (handle_tool e s ''slack.read_messages''
          (Json (JObj (dict_set args ''channel'' (JStr (CHR ''#'' # c))))))
     = fst (handle_tool e s ''slack.read_messages''
          (Json (JObj (dict_set args ''channel'' (JStr c)))))
   \<and> (load_fixture e (CURRENT_SCENARIO s) ''slack_messages.json'' = Inr (JArr (map JObj ms))
        \<and> ms \<noteq> []
        \<and> map (\<lambda>d. dict_get d ''channel'' (JStr [])) ms = map JStr chans \<longrightarrow>
      fst (handle_tool e s ''slack.read_messages''
             (Json (JObj (dict_set args ''channel'' (JStr c)))))
        = Inr (JObj [(''messages'',
            JArr (map JObj (map fst (filter
              (\<lambda>p. lstrip CHR ''#'' (snd p) = lstrip CHR ''#'' c) (zip ms chans)))))]))
   \<and> (channel =
          (if dict_get args ''channel'' JNull \<noteq> JNull then dict_get args ''channel'' JNull
           else if dict_get args ''channel_id'' JNull \<noteq> JNull
             then dict_get args ''channel_id'' JNull
           else JNull)
        \<and> (channel = JNull \<or> channel = JStr []) \<longrightarrow>
      fst (handle_tool e s ''slack.read_messages'' (Json (JObj args)))
        = and_then (load_fixture e (CURRENT_SCENARIO s) ''slack_messages.json'')
            (\<lambda>loaded. Inr (JObj [(''messages'', if truthy loaded then loaded else JArr [])])))"
proof -
  assume c: "c \<noteq> []"
  have with_channel: "handle_slack_read_messages e scn (JObj (dict_set args ''channel'' (JStr x)))
      = and_then (load_fixture e scn ''slack_messages.json'')
          (\<lambda>loaded.
             if x \<noteq> [] then
               and_then (py_iter (if truthy loaded then loaded else JArr []))
                 (\<lambda>ms. and_then (filter_channel (lstrip CHR ''#'' x) ms)
                    (\<lambda>kept. Inr (JObj [(''messages'', JArr kept)])))
             else Inr (JObj [(''messages'', if truthy loaded then loaded else JArr [])]))" for scn x
    by (cases "load_fixture e scn ''slack_messages.json''"; cases "x = []")
       (simp_all add: handle_slack_read_messages_def flexget_first_set lstrip_hash_def Let_def
          del: flexget.simps)
  have strip: "lstrip CHR ''#'' (CHR ''#'' # c) = lstrip CHR ''#'' c"
    by (simp add: lstrip_def)
  have same: "fst (handle_tool e s ''slack.read_messages''
          (Json (JObj (dict_set args ''channel'' (JStr (CHR ''#'' # c))))))
     = fst (handle_tool e s ''slack.read_messages''
          (Json (JObj (dict_set args ''channel'' (JStr c)))))"
    using c by (simp add: slack_run with_channel strip)
  have filtered: "load_fixture e (CURRENT_SCENARIO s) ''slack_messages.json'' = Inr (JArr (map JObj ms))
        \<and> ms \<noteq> []
        \<and> map (\<lambda>d. dict_get d ''channel'' (JStr [])) ms = map JStr chans \<longrightarrow>
      fst (handle_tool e s ''slack.read_messages''
             (Json (JObj (dict_set args ''channel'' (JStr c)))))
        = Inr (JObj [(''messages'',
            JArr (map JObj (map fst (filter
              (\<lambda>p. lstrip CHR ''#'' (snd p) = lstrip CHR ''#'' c) (zip ms chans)))))])"
    using c by (simp add: slack_run with_channel filter_channel_strings)
  have unfiltered: "channel =
          (if dict_get args ''channel'' JNull \<noteq> JNull then dict_get args ''channel'' JNull
           else if dict_get args ''channel_id'' JNull \<noteq> JNull
             then dict_get args ''channel_id'' JNull
           else JNull)
        \<and> (channel = JNull \<or> channel = JStr []) \<longrightarrow>
      fst (handle_tool e s ''slack.read_messages'' (Json (JObj args)))
        = and_then (load_fixture e (CURRENT_SCENARIO s) ''slack_messages.json'')
            (\<lambda>loaded. Inr (JObj [(''messages'', if truthy loaded then loaded else JArr [])]))"
  proof (intro impI, elim conjE)
    assume v: "channel =
          (if dict_get args ''channel'' JNull \<noteq> JNull then dict_get args ''channel'' JNull
           else if dict_get args ''channel_id'' JNull \<noteq> JNull
             then dict_get args ''channel_id'' JNull
           else JNull)"
      and f: "channel = JNull \<or> channel = JStr []"
    have fg: "flexget (JObj args) [''channel'', ''channel_id''] JNull = Inr channel"
      unfolding v by (rule flexget_two)
    from f have nt: "\<not> truthy channel" by auto
    show "fst (handle_tool e s ''slack.read_messages'' (Json (JObj args)))
        = and_then (load_fixture e (CURRENT_SCENARIO s) ''slack_messages.json'')
            (\<lambda>loaded. Inr (JObj [(''messages'', if truthy loaded then loaded else JArr [])]))"
      by (simp add: slack_run handle_slack_read_messages_def fg nt Let_def del: flexget.simps)
  qed
  from same filtered unfiltered show ?thesis by blast
qed

text \<open>
  C7 as stated fails for the empty identifier: the channel \<open>#\<close> filters (here to
  nothing), while the empty channel is a false value to \<^verbatim>\<open>if channel:\<close> and returns every
  message.
\<close>

theorem channel_marker_prefix_counterexample:
  "fst (handle_tool example_env (initial_state ''B'') ''slack.read_messages''
          (Json (JObj [(''channel'', JStr (CHR ''#'' # []))])))
     = Inr (JObj [(''messages'', JArr [])])
   \<and> fst (handle_tool example_env (initial_state ''B'') ''slack.read_messages''
          (Json (JObj [(''channel'', JStr [])])))
     = Inr (JObj [(''messages'',
         JArr [JObj [(''channel'', JStr ''#general''), (''text'', JStr ''hello'')],
               JObj [(''channel'', JStr ''random''), (''text'', JStr ''lunch'')]])])
   \<and> fst (handle_tool example_env (initial_state ''B'') ''slack.read_messages''
          (Json (JObj [(''channel'', JStr (CHR ''#'' # []))])))
     \<noteq> fst (handle_tool example_env (initial_state ''B'') ''slack.read_messages''
          (Json (JObj [(''channel'', JStr [])])))"
  by (simp add: slack_run initial_state_def handle_slack_read_messages_def example_slack_file
      dict_get_def lstrip_hash_def lstrip_def Let_def)

text \<open>The instance: \<open>#general\<close> and \<open>general\<close> both select the first message of scenario
  \<open>B\<close>; the empty channel, and no channel at all, select both messages.\<close>

theorem channel_marker_prefix_witness:
  "''general'' \<noteq> []
   \<and> fst (handle_tool example_env (initial_state ''B'') ''slack.read_messages''
          (Json (JObj [(''channel'', JStr ''#general'')])))
     = fst (handle_tool example_env (initial_state ''B'') ''slack.read_messages''
          (Json (JObj [(''channel'', JStr ''general'')])))
   \<and> load_fixture example_env (CURRENT_SCENARIO (initial_state ''B'')) ''slack_messages.json''
     = Inr (JArr (map JObj [[(''channel'', JStr ''#general''), (''text'', JStr ''hello'')],
                            [(''channel'', JStr ''random''), (''text'', JStr ''lunch'')]]))
   \<and> fst (handle_tool example_env (initial_state ''B'') ''slack.read_messages''
          (Json (JObj [(''channel'', JStr ''general'')])))
     = Inr (JObj [(''messages'',
         JArr [JObj [(''channel'', JStr ''#general''), (''text'', JStr ''hello'')]])])
   \<and> fst (handle_tool example_env (initial_state ''B'') ''slack.read_messages''
          (Json (JObj [(''channel'', JStr [])])))
     = Inr (JObj [(''messages'',
         JArr [JObj [(''channel'', JStr ''#general''), (''text'', JStr ''hello'')],
               JObj [(''channel'', JStr ''random''), (''text'', JStr ''lunch'')]])])
   \<and> fst (handle_tool example_env (initial_state ''B'') ''slack.read_messages'' (Json (JObj [])))
     = Inr (JObj [(''messages'',
         JArr [JObj [(''channel'', JStr ''#general''), (''text'', JStr ''hello'')],
               JObj [(''channel'', JStr ''random''), (''text'', JStr ''lunch'')]])])"
proof -
  have c: "''general'' \<noteq> []" by simp
  have f: "load_fixture example_env (CURRENT_SCENARIO (initial_state ''B'')) ''slack_messages.json''
     = Inr (JArr (map JObj [[(''channel'', JStr ''#general''), (''text'', JStr ''hello'')],
                            [(''channel'', JStr ''random''), (''text'', JStr ''lunch'')]]))"
    by (simp add: initial_state_def example_slack_file)
  note t1 = channel_marker_prefix[OF c, where e = example_env and s = "initial_state ''B''"
      and args = "[(''channel'', JStr [])]"
      and ms = "[[(''channel'', JStr ''#general''), (''text'', JStr ''hello'')],
                 [(''channel'', JStr ''random''), (''text'', JStr ''lunch'')]]"
      and chans = "[''#general'', ''random'']" and channel = "JStr []"]
  note t2 = channel_marker_prefix[OF c, where e = example_env and s = "initial_state ''B''"
      and args = "[]" and channel = JNull]
  show ?thesis
    using c f t1 t2 by (simp add: dict_get_def lstrip_def)
qed

section \<open>Web search\<close>

lemma search_run:
  "fst (handle_tool e s ''search.web'' (Json v)) = handle_search_web e (CURRENT_SCENARIO s) v"
proof -
  have m: "map_of TOOL_CATALOG ''search.web'' = Some (Custom ''handle_search_web'')"
    by (simp add: TOOL_CATALOG_def)
  show ?thesis
    by (simp add: handle_tool_known[OF m] Let_def outcome_fst CUSTOM_HANDLERS_def)
qed

lemma example_search_C:
  "load_fixture example_env ''C'' ''web_search_results.json'' = Inr (JArr [])"
  by (simp add: load_fixture_def path_exists_def json_load_def resolve_def
      path_div_def parse_path_def example_env_def example_fs_def Let_def)

lemma example_search_B:
  "load_fixture example_env ''B'' ''web_search_results.json''
     = Inr (JObj [(''isabelle'', JArr [JStr ''https://isabelle.in.tum.de''])])"
  by (simp add: load_fixture_def path_exists_def json_load_def resolve_def
      path_div_def parse_path_def example_env_def example_fs_def Let_def)

lemma example_search_D:
  "load_fixture example_env ''D'' ''web_search_results.json''
     = Inr (JArr [JStr ''https://www.python.org''])"
  by (simp add: load_fixture_def path_exists_def json_load_def resolve_def
      path_div_def parse_path_def example_env_def example_fs_def Let_def)

lemma example_search_A:
  "load_fixture example_env ''A'' ''web_search_results.json'' = Inr JNull"
  by (simp add: load_fixture_def path_exists_def resolve_def
      path_div_def parse_path_def example_env_def example_fs_def Let_def)

lemma search_web_unhashable:
  "load_fixture e (CURRENT_SCENARIO s) ''web_search_results.json'' = Inr (JObj d) \<Longrightarrow> d \<noteq> [] \<Longrightarrow>
   flexget (JObj args) [''query'', ''q''] (JStr []) = Inr query \<Longrightarrow>
   (\<exists>xs. query = JArr xs) \<or> (\<exists>kv. query = JObj kv) \<Longrightarrow>
   fst (handle_tool e s ''search.web'' (Json (JObj args))) = Inl TypeError"
  by (auto simp: search_run handle_search_web_def key_in_dict_def simp del: flexget.simps)

text \<open>
  C6, as the code has it. For every argument object, the query is the first value that
  is not \<open>null\<close> among \<open>query\<close> and \<open>q\<close>, the empty string when there is none. Whenever the
  query is not a list or a mapping: when the fixture is a mapping that has the query
  string as a key, \<open>search.web\<close> returns that entry; when the fixture is a non-empty list, it
  returns the list unfiltered; in every other case (the fixture is absent, is an empty
  list or an empty mapping, is neither a list nor a mapping, or is a mapping of which
  the query is not a key, a query that is not a string being no key) it returns the
  placeholder, which holds exactly one result.
\<close>

theorem search_web_results:
  "load_fixture e (CURRENT_SCENARIO s) ''web_search_results.json'' = Inr results \<Longrightarrow>
   query = (if dict_get args ''query'' JNull \<noteq> JNull then dict_get args ''query'' JNull
            else if dict_get args ''q'' JNull \<noteq> JNull then dict_get args ''q'' JNull
            else JStr []) \<Longrightarrow>
   (\<forall>xs. query \<noteq> JArr xs) \<and> (\<forall>kv. query \<noteq> JObj kv) \<Longrightarrow>
   (results = JObj d \<and> query = JStr q \<and> map_of d q = Some v \<longrightarrow>
      fst (handle_tool e s ''search.web'' (Json (JObj args))) = Inr (JObj [(''results'', v)]))
   \<and> (results = JArr xs \<and> xs \<noteq> [] \<longrightarrow>
      fst (handle_tool e s ''search.web'' (Json (JObj args))) = Inr (JObj [(''results'', JArr xs)]))
   \<and> (\<not> (\<exists>d q v. results = JObj d \<and> query = JStr q \<and> map_of d q = Some v)
        \<and> \<not> (\<exists>xs. results = JArr xs \<and> xs \<noteq> []) \<longrightarrow>
      fst (handle_tool e s ''search.web'' (Json (JObj args))) = Inr (search_placeholder query))
   \<and> (\<exists>r. search_placeholder query = JObj [(''results'', JArr [r])])"
proof -
  assume lf: "load_fixture e (CURRENT_SCENARIO s) ''web_search_results.json'' = Inr results"
    and q: "query = (if dict_get args ''query'' JNull \<noteq> JNull then dict_get args ''query'' JNull
            else if dict_get args ''q'' JNull \<noteq> JNull then dict_get args ''q'' JNull
            else JStr [])"
    and h: "(\<forall>xs. query \<noteq> JArr xs) \<and> (\<forall>kv. query \<noteq> JObj kv)"
  have fg: "flexget (JObj args) [''query'', ''q''] (JStr []) = Inr query"
    unfolding q by (rule flexget_two)
  have run: "fst (handle_tool e s ''search.web'' (Json (JObj args)))
      = (if truthy results then
            (case results of
               JObj d \<Rightarrow>
                 and_then (key_in_dict query d)
                   (\<lambda>hit. if hit then Inr (JObj [(''results'', dict_get d (py_str query) JNull)])
                          else Inr (search_placeholder query))
             | JArr xs \<Rightarrow> Inr (JObj [(''results'', results)])
             | _ \<Rightarrow> Inr (search_placeholder query))
          else Inr (search_placeholder query))"
    by (simp add: search_run handle_search_web_def fg lf del: flexget.simps)
  have a: "results = JObj d \<and> query = JStr q \<and> map_of d q = Some v \<longrightarrow>
      fst (handle_tool e s ''search.web'' (Json (JObj args))) = Inr (JObj [(''results'', v)])"
  proof (intro impI, elim conjE)
    assume r: "results = JObj d" and s: "query = JStr q" and v: "map_of d q = Some v"
    from v have "d \<noteq> []" by auto
    moreover from v have "q \<in> fst ` set d"
      by (metis map_of_eq_None_iff option.distinct(1))
    ultimately show "fst (handle_tool e s ''search.web'' (Json (JObj args))) = Inr (JObj [(''results'', v)])"
      using v by (simp add: run r s key_in_dict_def dict_get_def)
  qed
  have b: "results = JArr xs \<and> xs \<noteq> [] \<longrightarrow>
      fst (handle_tool e s ''search.web'' (Json (JObj args))) = Inr (JObj [(''results'', JArr xs)])"
    by (simp add: run)
  have c: "\<not> (\<exists>d q v. results = JObj d \<and> query = JStr q \<and> map_of d q = Some v)
        \<and> \<not> (\<exists>xs. results = JArr xs \<and> xs \<noteq> []) \<longrightarrow>
      fst (handle_tool e s ''search.web'' (Json (JObj args))) = Inr (search_placeholder query)"
  proof (intro impI, elim conjE)
    assume nm: "\<not> (\<exists>d q v. results = JObj d \<and> query = JStr q \<and> map_of d q = Some v)"
      and nl: "\<not> (\<exists>xs. results = JArr xs \<and> xs \<noteq> [])"
    show "fst (handle_tool e s ''search.web'' (Json (JObj args))) = Inr (search_placeholder query)"
    proof (cases results)
      case (JArr ys)
      with nl have "ys = []" by blast
      with JArr show ?thesis by (simp add: run)
    next
      case (JObj d')
      have "key_in_dict query d' = Inr False"
      proof (cases query)
        case (JStr q')
        with nm JObj have "map_of d' q' = None"
          by (cases "map_of d' q'") auto
        then show ?thesis
          by (simp add: key_in_dict_def JStr map_of_eq_None_iff)
      next
        case (JArr zs)
        with h show ?thesis by blast
      next
        case (JObj kv)
        with h show ?thesis by blast
      qed (simp_all add: key_in_dict_def)
      with JObj show ?thesis by (simp add: run)
    qed (simp_all add: run)
  qed
  have d: "\<exists>r. search_placeholder query = JObj [(''results'', JArr [r])]"
    by (simp add: search_placeholder_def)
  from a b c d show ?thesis by blast
qed

text \<open>
  C6 as stated fails in two places. A fixture that is the empty list is a false value
  to \<^verbatim>\<open>if results:\<close>, and the answer is the placeholder, not the list. A query that is a
  list cannot be hashed, and \<^verbatim>\<open>query in results\<close> raises \<^verbatim>\<open>TypeError\<close> on the mapping of
  scenario \<open>B\<close>, where the claim has the placeholder.
\<close>

theorem search_web_results_counterexample:
  "load_fixture example_env (CURRENT_SCENARIO (initial_state ''C'')) ''web_search_results.json''
     = Inr (JArr [])
   \<and> fst (handle_tool example_env (initial_state ''C'') ''search.web''
          (Json (JObj [(''query'', JStr ''isabelle'')])))
     = Inr (search_placeholder (JStr ''isabelle''))
   \<and> fst (handle_tool example_env (initial_state ''C'') ''search.web''
          (Json (JObj [(''query'', JStr ''isabelle'')])))
     \<noteq> Inr (JObj [(''results'', JArr [])])
   \<and> fst (handle_tool example_env (initial_state ''B'') ''search.web''
          (Json (JObj [(''query'', JArr [JStr ''isabelle''])])))
     = Inl TypeError"
  by (simp add: search_run initial_state_def handle_search_web_def example_search_C
      example_search_B dict_get_def search_placeholder_def key_in_dict_def)

text \<open>The instance: in scenario \<open>B\<close> the query \<open>isabelle\<close> (given as \<open>q\<close>) is a key of the
  mapping, and \<open>coq\<close> and the number 7 are not; scenario \<open>D\<close> has a list of one result;
  scenario \<open>A\<close> has no fixture and scenario \<open>C\<close> an empty list.\<close>

theorem search_web_results_witness:
  "load_fixture example_env (CURRENT_SCENARIO (initial_state ''B'')) ''web_search_results.json''
     = Inr (JObj [(''isabelle'', JArr [JStr ''https://isabelle.in.tum.de''])])
   \<and> fst (handle_tool example_env (initial_state ''B'') ''search.web''
          (Json (JObj [(''q'', JStr ''isabelle'')])))
     = Inr (JObj [(''results'', JArr [JStr ''https://isabelle.in.tum.de''])])
   \<and> fst (handle_tool example_env (initial_state ''B'') ''search.web''
          (Json (JObj [(''q'', JStr ''coq'')])))
     = Inr (search_placeholder (JStr ''coq''))
   \<and> fst (handle_tool example_env (initial_state ''B'') ''search.web''
          (Json (JObj [(''query'', JInt 7)])))
     = Inr (search_placeholder (JInt 7))
   \<and> fst (handle_tool example_env (initial_state ''D'') ''search.web''
          (Json (JObj [(''q'', JStr ''coq'')])))
     = Inr (JObj [(''results'', JArr [JStr ''https://www.python.org''])])
   \<and> fst (handle_tool example_env (initial_state ''A'') ''search.web''
          (Json (JObj [(''q'', JStr ''coq'')])))
     = Inr (search_placeholder (JStr ''coq''))
   \<and> fst (handle_tool example_env (initial_state ''C'') ''search.web''
          (Json (JObj [(''q'', JStr ''coq'')])))
     = Inr (search_placeholder (JStr ''coq''))
   \<and> search_placeholder (JStr ''coq'')
     = JObj [(''results'',
         JArr [JObj [(''title'', JStr ''Search result for: coq''),
                     (''url'', JStr ''https://example.com/search?q=coq''),
                     (''snippet'', JStr (''Mock search result for '' @ [CHR 0x27] @ ''coq'' @ [CHR 0x27]))]])]"
proof -
  have fB: "load_fixture example_env (CURRENT_SCENARIO (initial_state ''B'')) ''web_search_results.json''
     = Inr (JObj [(''isabelle'', JArr [JStr ''https://isabelle.in.tum.de''])])"
    by (simp add: initial_state_def example_search_B)
  have fD: "load_fixture example_env (CURRENT_SCENARIO (initial_state ''D'')) ''web_search_results.json''
     = Inr (JArr [JStr ''https://www.python.org''])"
    by (simp add: initial_state_def example_search_D)
  have fA: "load_fixture example_env (CURRENT_SCENARIO (initial_state ''A'')) ''web_search_results.json''
     = Inr JNull"
    by (simp add: initial_state_def example_search_A)
  have fC: "load_fixture example_env (CURRENT_SCENARIO (initial_state ''C'')) ''web_search_results.json''
     = Inr (JArr [])"
    by (simp add: initial_state_def example_search_C)
  have q1: "JStr ''isabelle'' =
      (if dict_get [(''q'', JStr ''isabelle'')] ''query'' JNull \<noteq> JNull
       then dict_get [(''q'', JStr ''isabelle'')] ''query'' JNull
       else if dict_get [(''q'', JStr ''isabelle'')] ''q'' JNull \<noteq> JNull
       then dict_get [(''q'', JStr ''isabelle'')] ''q'' JNull
       else JStr [])"
    by (simp add: dict_get_def)
  have q2: "JStr ''coq'' =
      (if dict_get [(''q'', JStr ''coq'')] ''query'' JNull \<noteq> JNull
       then dict_get [(''q'', JStr ''coq'')] ''query'' JNull
       else if dict_get [(''q'', JStr ''coq'')] ''q'' JNull \<noteq> JNull
       then dict_get [(''q'', JStr ''coq'')] ''q'' JNull
       else JStr [])"
    by (simp add: dict_get_def)
  have q3: "JInt 7 =
      (if dict_get [(''query'', JInt 7)] ''query'' JNull \<noteq> JNull
       then dict_get [(''query'', JInt 7)] ''query'' JNull
       else if dict_get [(''query'', JInt 7)] ''q'' JNull \<noteq> JNull
       then dict_get [(''query'', JInt 7)] ''q'' JNull
       else JStr [])"
    by (simp add: dict_get_def)
  have h1: "(\<forall>xs. JStr ''isabelle'' \<noteq> JArr xs) \<and> (\<forall>kv. JStr ''isabelle'' \<noteq> JObj kv)" by simp
  have h2: "(\<forall>xs. JStr ''coq'' \<noteq> JArr xs) \<and> (\<forall>kv. JStr ''coq'' \<noteq> JObj kv)" by simp
  have h3: "(\<forall>xs. JInt 7 \<noteq> JArr xs) \<and> (\<forall>kv. JInt 7 \<noteq> JObj kv)" by simp
  note t1 = search_web_results[OF fB q1 h1,
      where d = "[(''isabelle'', JArr [JStr ''https://isabelle.in.tum.de''])]"
      and q = "''isabelle''" and v = "JArr [JStr ''https://isabelle.in.tum.de'']"]
  note t2 = search_web_results[OF fB q2 h2]
  note t3 = search_web_results[OF fB q3 h3]
  note t4 = search_web_results[OF fD q2 h2, where xs = "[JStr ''https://www.python.org'']"]
  note t5 = search_web_results[OF fA q2 h2]
  note t6 = search_web_results[OF fC q2 h2]
  have r1: "fst (handle_tool example_env (initial_state ''B'') ''search.web''
          (Json (JObj [(''q'', JStr ''isabelle'')])))
     = Inr (JObj [(''results'', JArr [JStr ''https://isabelle.in.tum.de''])])"
    using t1 by simp
  have r2: "fst (handle_tool example_env (initial_state ''B'') ''search.web''
          (Json (JObj [(''q'', JStr ''coq'')])))
     = Inr (search_placeholder (JStr ''coq''))"
    using t2 by simp
  have r3: "fst (handle_tool example_env (initial_state ''B'') ''search.web''
          (Json (JObj [(''query'', JInt 7)])))
     = Inr (search_placeholder (JInt 7))"
    using t3 by simp
  have r4: "fst (handle_tool example_env (initial_state ''D'') ''search.web''
          (Json (JObj [(''q'', JStr ''coq'')])))
     = Inr (JObj [(''results'', JArr [JStr ''https://www.python.org''])])"
    using t4 by simp
  have r5: "fst (handle_tool example_env (initial_state ''A'') ''search.web''
          (Json (JObj [(''q'', JStr ''coq'')])))
     = Inr (search_placeholder (JStr ''coq''))"
    using t5 by simp
  have r6: "fst (handle_tool example_env (initial_state ''C'') ''search.web''
          (Json (JObj [(''q'', JStr ''coq'')])))
     = Inr (search_placeholder (JStr ''coq''))"
    using t6 by simp
  have p: "search_placeholder (JStr ''coq'')
     = JObj [(''results'',
         JArr [JObj [(''title'', JStr ''Search result for: coq''),
                     (''url'', JStr ''https://example.com/search?q=coq''),
                     (''snippet'', JStr (''Mock search result for '' @ [CHR 0x27] @ ''coq'' @ [CHR 0x27]))]])]"
    by (simp add: search_placeholder_def)
  from fB r1 r2 r3 r4 r5 r6 p show ?thesis by blast
qed

section \<open>Reading a note by path\<close>

lemma memory_run:
  "fst (handle_tool e s ''memory.read'' (Json v)) = handle_memory_read e (CURRENT_SCENARIO s) v"
proof -
  have m: "map_of TOOL_CATALOG ''memory.read'' = Some (Custom ''handle_memory_read'')"
    by (simp add: TOOL_CATALOG_def)
  show ?thesis
    by (simp add: handle_tool_known[OF m] Let_def outcome_fst CUSTOM_HANDLERS_def)
qed

lemma path_div_rooted: "path_div base (CHR ''/'' # p) = parse_path (CHR ''/'' # p)"
  by (simp add: path_div_def parse_path_def Let_def)

lemma flexget_first:
  "dict_get d k JNull = v \<Longrightarrow> v \<noteq> JNull \<Longrightarrow> flexget (JObj d) (k # ks) dflt = Inr v"
  by simp

lemma example_traversal:
  "fst (handle_tool example_env (initial_state ''B'') ''memory.read''
          (Json (JObj [(''path'', JStr ''../../../../etc/passwd'')])))
     = Inr (JObj [(''content'', JStr ''root:x:0:0''), (''exists'', JBool True)])"
  by (simp add: memory_run initial_state_def handle_memory_read_def memory_read_try_def
      dict_get_def path_exists_def read_text_def resolve_def path_div_def parse_path_def
      example_env_def example_fs_def Let_def)

text \<open>
  C10. \<open>memory.read\<close> joins the \<open>path\<close> argument onto the memory directory of the
  scenario as it is. A path that starts with \<open>/\<close> replaces the whole base, so for every
  fixtures directory and every scenario the dispatch returns the content of the file
  that the path names from the root of the file system, with \<open>exists: true\<close>. A relative
  path with \<open>..\<close> components climbs out of the memory directory: in the example
  installation \<open>../../../../etc/passwd\<close> returns the content of \<open>/etc/passwd\<close>, which is
  not under the fixtures tree.
\<close>

theorem memory_read_outside_scenario:
  "dict_get args ''path'' JNull = JStr (CHR ''/'' # p) \<Longrightarrow>
   walk (fs_root e) [] (parts (parse_path (CHR ''/'' # p))) = Some (File (Some content) j) \<Longrightarrow>
   path_div (path_div (path_div (FIXTURES_PATH e) (CURRENT_SCENARIO s)) ''memory'') (CHR ''/'' # p)
     = parse_path (CHR ''/'' # p)
   \<and> fst (handle_tool e s ''memory.read'' (Json (JObj args)))
       = Inr (JObj [(''content'', JStr content), (''exists'', JBool True)])
   \<and> walk (fs_root example_env) [] [''etc'', ''passwd''] = Some (File (Some ''root:x:0:0'') None)
   \<and> fst (handle_tool example_env (initial_state ''B'') ''memory.read''
          (Json (JObj [(''path'', JStr ''../../../../etc/passwd'')])))
       = Inr (JObj [(''content'', JStr ''root:x:0:0''), (''exists'', JBool True)])"
proof -
  assume a: "dict_get args ''path'' JNull = JStr (CHR ''/'' # p)"
    and w: "walk (fs_root e) [] (parts (parse_path (CHR ''/'' # p))) = Some (File (Some content) j)"
  have fg: "flexget (JObj args) [''path'', ''key''] (JStr []) = Inr (JStr (CHR ''/'' # p))"
    using a by (rule flexget_first) simp
  have ab: "absolute (parse_path (CHR ''/'' # p))"
    by (simp add: parse_path_def)
  have r: "resolve e (parse_path (CHR ''/'' # p)) = Some (File (Some content) j)"
    using w ab by (simp add: resolve_def)
  have "handle_memory_read e (CURRENT_SCENARIO s) (JObj args)
      = Inr (JObj [(''content'', JStr content), (''exists'', JBool True)])"
    by (simp add: handle_memory_read_def fg memory_read_try_def path_div_rooted
        path_exists_def read_text_def r del: flexget.simps)
  then have c2: "fst (handle_tool e s ''memory.read'' (Json (JObj args)))
       = Inr (JObj [(''content'', JStr content), (''exists'', JBool True)])"
    by (simp add: memory_run)
  have c3: "walk (fs_root example_env) [] [''etc'', ''passwd''] = Some (File (Some ''root:x:0:0'') None)"
    by (simp add: example_env_def example_fs_def)
  from path_div_rooted c2 c3 example_traversal show ?thesis
    by blast
qed

text \<open>The instance: \<open>/etc/passwd\<close> under scenario \<open>B\<close>, whose memory directory holds
  one note only.\<close>

theorem memory_read_outside_scenario_witness:
  "dict_get [(''path'', JStr ''/etc/passwd'')] ''path'' JNull = JStr (CHR ''/'' # ''etc/passwd'')
   \<and> walk (fs_root example_env) [] (parts (parse_path (CHR ''/'' # ''etc/passwd'')))
       = Some (File (Some ''root:x:0:0'') None)
   \<and> fst (handle_tool example_env (initial_state ''B'') ''memory.read''
          (Json (JObj [(''path'', JStr ''/etc/passwd'')])))
       = Inr (JObj [(''content'', JStr ''root:x:0:0''), (''exists'', JBool True)])
   \<and> resolve example_env
         (path_div (path_div (FIXTURES_PATH example_env) ''B'') ''memory'')
       = Some (Dir [(''notes.md'', File (Some ''remember the milk'') None)])"
proof -
  have a: "dict_get [(''path'', JStr ''/etc/passwd'')] ''path'' JNull = JStr (CHR ''/'' # ''etc/passwd'')"
    by (simp add: dict_get_def)
  have w: "walk (fs_root example_env) [] (parts (parse_path (CHR ''/'' # ''etc/passwd'')))
       = Some (File (Some ''root:x:0:0'') None)"
    by (simp add: parse_path_def example_env_def example_fs_def)
  have d: "resolve example_env
         (path_div (path_div (FIXTURES_PATH example_env) ''B'') ''memory'')
       = Some (Dir [(''notes.md'', File (Some ''remember the milk'') None)])"
    by (simp add: resolve_def path_div_def parse_path_def example_env_def example_fs_def Let_def)
  show ?thesis
    using a w d memory_read_outside_scenario[OF a w, of "initial_state ''B''"]
    by simp
qed

section \<open>Write actions\<close>

lemma write_run:
  "map_of TOOL_CATALOG t = Some (WriteAction dr ef irr) \<Longrightarrow>
   fst (handle_tool e s t (Json v)) = write_action e dr ef v"
  by (simp add: handle_tool_known Let_def outcome_fst)

lemma handle_tool_raises:
  "fst (handle_tool e s t b) = Inl err \<Longrightarrow> snd (handle_tool e s t b) = s"
  by (cases "map_of TOOL_CATALOG t")
     (auto simp: handle_tool_def Let_def split: sum.splits)

lemma handle_tool_returns:
  "fst (handle_tool e s t (Json data)) = Inr result \<Longrightarrow>
   tool_calls (snd (handle_tool e s t (Json data)))
     = tool_calls s @ [JObj [(''ts'', JStr (isoformat (now_log e))), (''tool'', JStr t),
                             (''args'', data),
                             (''result_summary'', JStr (take 200 (py_str result)))]]"
  by (cases "map_of TOOL_CATALOG t")
     (auto simp: handle_tool_def Let_def log_tool_call_def split: sum.splits)

lemma format_call_ts_key:
  "''ts'' \<in> fst ` set d \<Longrightarrow> format_call ts (JObj d) v = Inl TypeError"
  by (simp add: format_call_def)

lemma map_of_dict_set_other: "k' \<noteq> k \<Longrightarrow> map_of (dict_set d k v) k' = map_of d k'"
  by (induction d) auto

lemma echo_loop_object_some:
  "\<exists>r. echo_loop (JObj d) fs result = Inr r
     \<and> (\<forall>f v. f \<in> set fs \<and> map_of d f = Some v \<longrightarrow> map_of r f = Some v)
     \<and> (\<forall>f. f \<notin> set fs \<or> f \<notin> fst ` set d \<longrightarrow> map_of r f = map_of result f)"
proof (induction fs arbitrary: result)
  case Nil
  then show ?case by simp
next
  case (Cons g gs)
  show ?case
  proof (cases "map_of d g")
    case None
    then have ng: "g \<notin> fst ` set d" by (simp add: map_of_eq_None_iff)
    from Cons.IH[of result] obtain r where
      r: "echo_loop (JObj d) gs result = Inr r"
      and a: "\<forall>f v. f \<in> set gs \<and> map_of d f = Some v \<longrightarrow> map_of r f = Some v"
      and b: "\<forall>f. f \<notin> set gs \<or> f \<notin> fst ` set d \<longrightarrow> map_of r f = map_of result f"
      by blast
    have "echo_loop (JObj d) (g # gs) result = Inr r"
      using ng r by simp
    moreover have "\<forall>f v. f \<in> set (g # gs) \<and> map_of d f = Some v \<longrightarrow> map_of r f = Some v"
      using a None by auto
    moreover have "\<forall>f. f \<notin> set (g # gs) \<or> f \<notin> fst ` set d \<longrightarrow> map_of r f = map_of result f"
      using b by auto
    ultimately show ?thesis by blast
  next
    case (Some w)
    then have ig: "g \<in> fst ` set d"
      by (metis map_of_eq_None_iff option.distinct(1))
    from Cons.IH[of "dict_set result g w"] obtain r where
      r: "echo_loop (JObj d) gs (dict_set result g w) = Inr r"
      and a: "\<forall>f v. f \<in> set gs \<and> map_of d f = Some v \<longrightarrow> map_of r f = Some v"
      and b: "\<forall>f. f \<notin> set gs \<or> f \<notin> fst ` set d \<longrightarrow> map_of r f = map_of (dict_set result g w) f"
      by blast
    have e: "echo_loop (JObj d) (g # gs) result = Inr r"
      using ig r Some by simp
    have a': "\<forall>f v. f \<in> set (g # gs) \<and> map_of d f = Some v \<longrightarrow> map_of r f = Some v"
    proof (intro allI impI)
      fix f v assume h: "f \<in> set (g # gs) \<and> map_of d f = Some v"
      show "map_of r f = Some v"
      proof (cases "f \<in> set gs")
        case True
        with a h show ?thesis by blast
      next
        case False
        with h have fg: "f = g" by simp
        with False b have "map_of r f = map_of (dict_set result g w) f" by blast
        with fg h Some show ?thesis by (simp add: map_of_dict_set_same)
      qed
    qed
    have b': "\<forall>f. f \<notin> set (g # gs) \<or> f \<notin> fst ` set d \<longrightarrow> map_of r f = map_of result f"
    proof (intro allI impI)
      fix f assume h: "f \<notin> set (g # gs) \<or> f \<notin> fst ` set d"
      with ig have ne: "f \<noteq> g" by auto
      from h have "f \<notin> set gs \<or> f \<notin> fst ` set d" by auto
      with b have "map_of r f = map_of (dict_set result g w) f" by blast
      with ne show "map_of r f = map_of result f" by (simp add: map_of_dict_set_other)
    qed
    from e a' b' show ?thesis by blast
  qed
qed

lemma template_loop_ts_key:
  "''ts'' \<in> fst ` set d \<Longrightarrow> (k, JStr v) \<in> set items \<Longrightarrow> CHR ''{'' \<in> set v \<Longrightarrow>
   template_loop ts (JObj d) items result = Inl TypeError"
proof (induction items arbitrary: result)
  case Nil
  then show ?case by simp
next
  case (Cons item items)
  obtain k' w where item: "item = (k', w)" by (cases item)
  show ?case
  proof (cases "\<exists>v'. w = JStr v' \<and> CHR ''{'' \<in> set v'")
    case True
    then obtain v' where "w = JStr v'" "CHR ''{'' \<in> set v'" by blast
    then show ?thesis
      using Cons.prems(1) by (simp add: item fill_template_def format_call_ts_key)
  next
    case False
    with Cons.prems item have "(k, JStr v) \<in> set items" by auto
    with Cons.IH Cons.prems have "template_loop ts (JObj d) items result = Inl TypeError" by blast
    with False show ?thesis
      by (cases w) (simp_all add: item)
  qed
qed

lemma template_catalog_no_ts:
  "(t, WriteAction (Some template) ef irr) \<in> set TOOL_CATALOG \<Longrightarrow> ''ts'' \<notin> fst ` set args \<Longrightarrow>
   \<exists>r. template_loop ts (JObj args) template template = Inr r"
  by (auto simp: TOOL_CATALOG_def fill_template_def format_call_def py_format_def
      field_value_def is_digit_def)

lemma catalog_write_has_template:
  "(t, WriteAction dr ef irr) \<in> set TOOL_CATALOG \<Longrightarrow> \<exists>template fs. dr = Some template \<and> ef = Some fs"
  by (auto simp: TOOL_CATALOG_def)

lemma write_action_echoes:
  assumes "map_of TOOL_CATALOG t = Some (WriteAction dr (Some fs) irr)"
    and "''ts'' \<notin> fst ` set args"
  shows "\<exists>r. fst (handle_tool e s t (Json (JObj args))) = Inr (JObj r)
     \<and> (\<forall>f v. f \<in> set fs \<and> map_of args f = Some v \<longrightarrow> map_of r f = Some v)"
proof -
  from assms(1) have mem: "(t, WriteAction dr (Some fs) irr) \<in> set TOOL_CATALOG"
    by (rule map_of_SomeD)
  then obtain template where dr: "dr = Some template"
    using catalog_write_has_template by blast
  from template_catalog_no_ts[OF mem[unfolded dr] assms(2)]
  obtain r0 where r0: "template_loop (strftime (now_ts e)) (JObj args) template template = Inr r0"
    by blast
  from echo_loop_object_some[of args fs r0] obtain r where
    r: "echo_loop (JObj args) fs r0 = Inr r"
    and a: "\<forall>f v. f \<in> set fs \<and> map_of args f = Some v \<longrightarrow> map_of r f = Some v"
    by blast
  have "fst (handle_tool e s t (Json (JObj args))) = Inr (JObj r)"
    by (simp add: write_run[OF assms(1)] write_action_def dr r0 r Let_def)
  with a show ?thesis by blast
qed

lemma show_nat_length: "n < 10 ^ k \<Longrightarrow> 0 < k \<Longrightarrow> length (show_nat n) \<le> k"
proof (induction n arbitrary: k rule: show_nat.induct)
  case (1 n)
  show ?case
  proof (cases "n < 10")
    case True
    with 1 show ?thesis by (subst show_nat.simps) simp
  next
    case False
    then obtain j where k: "k = Suc j"
      using 1(3) by (cases k) auto
    with 1(2) False have "0 < j" by (cases j) auto
    moreover from 1(2) k have "n div 10 < 10 ^ j" by simp
    ultimately have "length (show_nat (n div 10)) \<le> j"
      using 1(1)[OF False] by blast
    with False k show ?thesis by (subst show_nat.simps) simp
  qed
qed

lemma zpad_length: "n < 10 ^ w \<Longrightarrow> 0 < w \<Longrightarrow> length (zpad w n) = w"
  using show_nat_length[of n w] by (simp add: zpad_def)

lemma strftime_length:
  "year t < 10000 \<Longrightarrow> month t < 100 \<Longrightarrow> day t < 100 \<Longrightarrow> hour t < 100 \<Longrightarrow>
   minute t < 100 \<Longrightarrow> second t < 100 \<Longrightarrow> length (strftime t) = 14"
  by (simp add: strftime_def zpad_length)

lemma fill_template_missing_key:
  "''ts'' \<notin> fst ` set d \<Longrightarrow> map_of d ''name'' = None \<Longrightarrow>
   fill_template ts (JObj d) ''x_{name}_{ts}'' = Inr (''x_{name}_'' @ ts)"
  by (simp add: fill_template_def format_call_def py_format_def field_value_def is_digit_def
      py_replace_def)

text \<open>
  The lemmas above are what holds of a write action whose arguments have no key \<open>ts\<close>:
  the dispatch returns, every echo field of the arguments is in the response with the
  argument's value, a placeholder whose name is not an argument stays as it is, and the
  timestamp has 14 digits.
\<close>

text \<open>
  C3 fails on the code. For every \<open>write_action\<close> tool of the catalog whose template has a
  string value with a brace, and every argument object that has a key \<open>ts\<close>, the dispatch
  raises \<^verbatim>\<open>TypeError\<close>: \<^verbatim>\<open>val.format(ts=ts, **data)\<close> gets the keyword \<open>ts\<close> twice, and the
  \<^verbatim>\<open>except\<close> clause catches \<^verbatim>\<open>KeyError\<close> and \<^verbatim>\<open>IndexError\<close> only. No response is built,
  the state is unchanged, and the exception leaves the middleware.
\<close>

theorem template_ts_collision:
  "map_of TOOL_CATALOG tool_name = Some (WriteAction (Some template) echo_fields irreversible) \<Longrightarrow>
   (key, JStr val) \<in> set template \<Longrightarrow> CHR ''{'' \<in> set val \<Longrightarrow>
   ''ts'' \<in> fst ` set args \<Longrightarrow>
   handle_tool e s tool_name (Json (JObj args)) = (Inl TypeError, s)
   \<and> post_tools e s tool_name (Json (JObj args)) = (Inl TypeError, s)"
proof -
  assume m: "map_of TOOL_CATALOG tool_name = Some (WriteAction (Some template) echo_fields irreversible)"
    and k: "(key, JStr val) \<in> set template" and b: "CHR ''{'' \<in> set val"
    and t: "''ts'' \<in> fst ` set args"
  have "write_action e (Some template) echo_fields (JObj args) = Inl TypeError"
    by (simp add: write_action_def Let_def template_loop_ts_key[OF t k b])
  then have h: "handle_tool e s tool_name (Json (JObj args)) = (Inl TypeError, s)"
    by (simp add: handle_tool_known[OF m] Let_def)
  then show ?thesis
    by (simp add: post_tools_def Let_def)
qed

text \<open>The instance: \<open>slack.post_message\<close> with a \<open>channel\<close>, a \<open>text\<close> and a \<open>ts\<close>.\<close>

theorem template_ts_collision_witness:
  "map_of TOOL_CATALOG ''slack.post_message''
     = Some (WriteAction (Some [(''status'', JStr ''posted''), (''message_id'', JStr ''slack_msg_{ts}'')])
         (Some [''channel'', ''text'']) True)
   \<and> (''message_id'', JStr ''slack_msg_{ts}'')
       \<in> set [(''status'', JStr ''posted''), (''message_id'', JStr ''slack_msg_{ts}'')]
   \<and> CHR ''{'' \<in> set ''slack_msg_{ts}''
   \<and> ''ts'' \<in> fst ` set [(''channel'', JStr ''#general''), (''text'', JStr ''hi''),
                           (''ts'', JStr ''1700000000.000100'')]
   \<and> handle_tool example_env example_state ''slack.post_message''
        (Json (JObj [(''channel'', JStr ''#general''), (''text'', JStr ''hi''),
                     (''ts'', JStr ''1700000000.000100'')]))
       = (Inl TypeError, example_state)"
proof -
  have m: "map_of TOOL_CATALOG ''slack.post_message''
     = Some (WriteAction (Some [(''status'', JStr ''posted''), (''message_id'', JStr ''slack_msg_{ts}'')])
         (Some [''channel'', ''text'']) True)"
    by (simp add: TOOL_CATALOG_def)
  have k: "(''message_id'', JStr ''slack_msg_{ts}'')
       \<in> set [(''status'', JStr ''posted''), (''message_id'', JStr ''slack_msg_{ts}'')]"
    by simp
  have b: "CHR ''{'' \<in> set ''slack_msg_{ts}''" by simp
  have t: "''ts'' \<in> fst ` set [(''channel'', JStr ''#general''), (''text'', JStr ''hi''),
                           (''ts'', JStr ''1700000000.000100'')]"
    by simp
  from m k b t template_ts_collision[OF m k b t, of example_env example_state]
  show ?thesis by blast
qed

lemma calendar_create_entry:
  "map_of TOOL_CATALOG ''calendar.create''
     = Some (WriteAction (Some [(''status'', JStr ''created''), (''event_id'', JStr ''evt_{ts}'')])
         (Some [''title'', ''start'', ''end'']) True)"
  by (simp add: TOOL_CATALOG_def)

text \<open>
  C2 fails on the code, by the same defect. \<open>calendar.create\<close> called with a \<open>title\<close>
  returns the template with the timestamp filled in and the title echoed; called with
  the same \<open>title\<close> and a \<open>ts\<close>, it raises \<^verbatim>\<open>TypeError\<close> and the title appears in no
  response.
\<close>

theorem echo_lost_on_ts_argument:
  "fst (handle_tool e s ''calendar.create'' (Json (JObj [(''title'', JStr ''Standup'')])))
     = Inr (JObj [(''status'', JStr ''created''),
                  (''event_id'', JStr (''evt_'' @ strftime (now_ts e))),
                  (''title'', JStr ''Standup'')])
   \<and> handle_tool e s ''calendar.create''
        (Json (JObj [(''title'', JStr ''Standup''), (''ts'', JStr ''09:30'')]))
     = (Inl TypeError, s)"
proof -
  have ok: "fst (handle_tool e s ''calendar.create'' (Json (JObj [(''title'', JStr ''Standup'')])))
     = Inr (JObj [(''status'', JStr ''created''),
                  (''event_id'', JStr (''evt_'' @ strftime (now_ts e))),
                  (''title'', JStr ''Standup'')])"
    by (simp add: write_run[OF calendar_create_entry] write_action_def fill_template_def
        format_call_def py_format_def field_value_def is_digit_def Let_def)
  have "write_action e (Some [(''status'', JStr ''created''), (''event_id'', JStr ''evt_{ts}'')])
          (Some [''title'', ''start'', ''end''])
          (JObj [(''title'', JStr ''Standup''), (''ts'', JStr ''09:30'')]) = Inl TypeError"
    by (simp add: write_action_def fill_template_def format_call_def Let_def)
  then have bad: "handle_tool e s ''calendar.create''
        (Json (JObj [(''title'', JStr ''Standup''), (''ts'', JStr ''09:30'')]))
     = (Inl TypeError, s)"
    by (simp add: handle_tool_known[OF calendar_create_entry] Let_def)
  from ok bad show ?thesis by blast
qed

section \<open>The two logs\<close>

lemma load_fixture_error:
  "load_fixture e scn f = Inl err \<Longrightarrow>
   err = FileNotFoundError \<or> err = IsADirectoryError \<or> err = ValueError"
  by (auto simp: load_fixture_def json_load_def Let_def
      split: if_splits option.splits node.splits)

text \<open>
  By \<open>handle_tool_returns\<close> and \<open>handle_tool_raises\<close> above, a dispatch that returns appends
  one entry to the success log and a dispatch that raises leaves the state as it was.
\<close>

text \<open>
  C8 fails on the code for an exception of a handler. \<open>slack.read_messages\<close> called with
  the channel 5 raises (\<^verbatim>\<open>AttributeError\<close> from \<^verbatim>\<open>channel.lstrip\<close>, unless loading the
  fixture raises first); the exception is raised again by \<^verbatim>\<open>call_next\<close>, the middleware
  never reaches its append, and the state after the request is the state before it: the
  failure is in neither log. An unknown tool, answered through \<open>HTTPException\<close>, adds one
  entry to the all-requests log.
\<close>

theorem handler_exception_in_no_log:
  "snd (post_tools e s ''slack.read_messages'' (Json (JObj [(''channel'', JInt 5)]))) = s
   \<and> (\<exists>err. fst (post_tools e s ''slack.read_messages'' (Json (JObj [(''channel'', JInt 5)])))
          = Inl err)
   \<and> length (all_requests (snd (post_tools e s ''calendar.rename'' EmptyBody)))
       = Suc (length (all_requests s))"
proof -
  let ?b = "Json (JObj [(''channel'', JInt 5)])"
  have "\<exists>err. handle_slack_read_messages e (CURRENT_SCENARIO s) (JObj [(''channel'', JInt 5)]) = Inl err
      \<and> (err = AttributeError \<or> err = FileNotFoundError \<or> err = IsADirectoryError
          \<or> err = ValueError)"
  proof (cases "load_fixture e (CURRENT_SCENARIO s) ''slack_messages.json''")
    case (Inl err)
    with load_fixture_error[OF Inl] show ?thesis
      by (auto simp: handle_slack_read_messages_def dict_get_def)
  next
    case (Inr loaded)
    then show ?thesis
      by (simp add: handle_slack_read_messages_def dict_get_def lstrip_hash_def Let_def)
  qed
  then obtain err where r: "fst (handle_tool e s ''slack.read_messages'' ?b) = Inl err"
    and c: "err = AttributeError \<or> err = FileNotFoundError \<or> err = IsADirectoryError
          \<or> err = ValueError"
    by (auto simp: slack_run)
  from handle_tool_raises[OF r] r have h: "handle_tool e s ''slack.read_messages'' ?b = (Inl err, s)"
    by (metis prod.collapse)
  from c have "call_next (Inl err) = Inl err" by auto
  with h have p: "post_tools e s ''slack.read_messages'' ?b = (Inl err, s)"
    by (simp add: post_tools_def Let_def)
  have n: "map_of TOOL_CATALOG ''calendar.rename'' = None"
    by (simp add: TOOL_CATALOG_def)
  have u: "length (all_requests (snd (post_tools e s ''calendar.rename'' EmptyBody)))
       = Suc (length (all_requests s))"
    by (simp add: post_tools_def unknown_tool[OF n] Let_def)
  from p u show ?thesis by simp
qed

section \<open>Request bodies that are not JSON\<close>

lemma write_action_catalog_no_arguments:
  "(t, WriteAction (Some template) ef irr) \<in> set TOOL_CATALOG \<Longrightarrow>
   write_action e (Some template) ef (JObj [])
     = Inr (JObj (map (\<lambda>kv. (fst kv,
                               case snd kv of
                                 JStr x \<Rightarrow> JStr (py_replace ''{ts}'' (strftime (now_ts e)) x)
                               | w \<Rightarrow> w))
                      template))"
  by (auto simp: TOOL_CATALOG_def write_action_def fill_template_def format_call_def
      py_format_def field_value_def is_digit_def py_replace_def Let_def)

lemma map_raise_inbox_summary:
  "map_raise inbox_summary (map JObj ds)
     = Inr (map (\<lambda>d. JObj [(''id'', dict_get d ''id'' JNull),
                            (''sender'', dict_get d ''sender'' JNull),
                            (''subject'', dict_get d ''subject'' JNull),
                            (''snippet'', JStr (take 100 (py_str (dict_get d ''body'' (JStr []))))),
                            (''received_ts'', dict_get d ''received_ts'' (JStr [])),
                            (''labels'', dict_get d ''labels'' (JArr [])),
                            (''is_urgent'', dict_get d ''is_urgent'' (JBool False))]) ds)"
  by (induction ds) (simp_all add: inbox_summary_def)

lemma path_div_empty: "path_div p [] = p"
  by (simp add: path_div_def parse_path_def Let_def)

lemma memory_read_no_arguments:
  "\<forall>t j. resolve e (path_div (path_div (FIXTURES_PATH e) scn) ''memory'') \<noteq> Some (File t j) \<Longrightarrow>
   handle_memory_read e scn (JObj []) = Inr (JObj [(''content'', JNull), (''exists'', JBool False)])"
proof -
  assume nf: "\<forall>t j. resolve e (path_div (path_div (FIXTURES_PATH e) scn) ''memory'') \<noteq> Some (File t j)"
  let ?p = "path_div (path_div (FIXTURES_PATH e) scn) ''memory''"
  have "memory_read_try e scn (JStr []) = Inr None
      \<or> (\<exists>err. memory_read_try e scn (JStr []) = Inl err)"
  proof (cases "resolve e ?p")
    case None
    then show ?thesis
      by (simp add: memory_read_try_def path_div_empty path_exists_def)
  next
    case (Some n)
    with nf obtain es where "n = Dir es" by (cases n) auto
    with Some show ?thesis
      by (simp add: memory_read_try_def path_div_empty path_exists_def read_text_def)
  qed
  then show ?thesis
    by (auto simp: handle_memory_read_def dict_get_def)
qed

lemma search_web_no_arguments:
  "load_fixture e scn ''web_search_results.json'' = Inr results \<Longrightarrow>
   handle_search_web e scn (JObj [])
     = Inr (case results of
              JArr xs \<Rightarrow>
                if xs = [] then search_placeholder (JStr []) else JObj [(''results'', JArr xs)]
            | JObj d \<Rightarrow>
                (case map_of d [] of
                   Some v \<Rightarrow> JObj [(''results'', v)]
                 | None \<Rightarrow> search_placeholder (JStr []))
            | _ \<Rightarrow> search_placeholder (JStr []))"
proof (cases results)
  case (JObj d)
  assume lf: "load_fixture e scn ''web_search_results.json'' = Inr results"
  show ?thesis
  proof (cases "map_of d []")
    case None
    then have "[] \<notin> fst ` set d" by (simp add: map_of_eq_None_iff)
    with None show ?thesis
      by (simp add: handle_search_web_def dict_get_def lf JObj key_in_dict_def)
  next
    case (Some v)
    then have "[] \<in> fst ` set d"
      by (metis map_of_eq_None_iff option.distinct(1))
    moreover from Some have "d \<noteq> []" by auto
    ultimately show ?thesis
      using Some by (simp add: handle_search_web_def dict_get_def lf JObj key_in_dict_def)
  qed
qed (simp_all add: handle_search_web_def dict_get_def search_placeholder_def)

lemma custom_run:
  "map_of TOOL_CATALOG t = Some (Custom h) \<Longrightarrow> map_of CUSTOM_HANDLERS h = Some f \<Longrightarrow>
   fst (handle_tool e s t (Json v)) = f e (CURRENT_SCENARIO s) v"
  by (simp add: handle_tool_known Let_def outcome_fst)

lemma list_run:
  "map_of TOOL_CATALOG t = Some (FixtureList f k tr) \<Longrightarrow>
   fst (handle_tool e s t (Json v)) = fixture_list e (CURRENT_SCENARIO s) f k tr"
  by (simp add: handle_tool_known Let_def outcome_fst)

lemma lookup_run:
  "map_of TOOL_CATALOG t = Some (FixtureLookup f lf pf k) \<Longrightarrow>
   fst (handle_tool e s t (Json v)) = fixture_lookup e (CURRENT_SCENARIO s) f lf pf k v"
  by (simp add: handle_tool_known Let_def outcome_fst)

text \<open>
  C9. For every tool, a request body that is empty or that \<^verbatim>\<open>json.loads\<close> rejects is
  dispatched exactly as the body \<^verbatim>\<open>{}\<close> is: the outcome and the state left are the same,
  and when the dispatch returns, the entry appended to the success log has the
  arguments \<^verbatim>\<open>{}\<close>. The parse failure itself never raises. What each tool of the catalog
  returns for such a body:
  \<^item> a \<open>write_action\<close> tool, its template with the timestamp in place of every \<open>{ts}\<close>
    and no echoed field;
  \<^item> a \<open>fixture_list\<close> tool, the empty list when its fixture is absent; with no transform,
    the fixture as loaded; with the inbox transform, the summary of every record;
  \<^item> a \<open>fixture_lookup\<close> tool, \<open>null\<close> and \<open>found: false\<close> when its fixture is absent, and
    otherwise the first record whose lookup field has the empty string as its \<^verbatim>\<open>str\<close>;
  \<^item> \<open>email.draft\<close>, the draft for the message \<open>unknown\<close> with the default instructions;
  \<^item> \<open>memory.read\<close>, no content and \<open>exists: false\<close>, unless the memory directory of the
    scenario is a regular file;
  \<^item> \<open>slack.read_messages\<close>, every message of the fixture;
  \<^item> \<open>search.web\<close>, what the empty query gives.
\<close>

theorem unparseable_body_as_empty_object:
  "handle_tool e s tool_name EmptyBody = handle_tool e s tool_name (Json (JObj []))
   \<and> handle_tool e s tool_name (NotJson raw) = handle_tool e s tool_name (Json (JObj []))
   \<and> (fst (handle_tool e s tool_name (NotJson raw)) = Inr result \<longrightarrow>
        tool_calls (snd (handle_tool e s tool_name (NotJson raw)))
          = tool_calls s @ [JObj [(''ts'', JStr (isoformat (now_log e))),
                                  (''tool'', JStr tool_name),
                                  (''args'', JObj []),
                                  (''result_summary'', JStr (take 200 (py_str result)))]])
   \<and> (map_of TOOL_CATALOG tool_name = Some (WriteAction (Some template) echo_fields irreversible) \<longrightarrow>
        fst (handle_tool e s tool_name (NotJson raw))
          = Inr (JObj (map (\<lambda>kv. (fst kv,
                                    case snd kv of
                                      JStr x \<Rightarrow> JStr (py_replace ''{ts}'' (strftime (now_ts e)) x)
                                    | w \<Rightarrow> w))
                           template)))
   \<and> (map_of TOOL_CATALOG tool_name = Some (FixtureList fixture response_key transform)
        \<and> load_fixture e (CURRENT_SCENARIO s) fixture = Inr JNull \<longrightarrow>
        fst (handle_tool e s tool_name (NotJson raw)) = Inr (JObj [(response_key, JArr [])]))
   \<and> (map_of TOOL_CATALOG tool_name = Some (FixtureList fixture response_key None)
        \<and> load_fixture e (CURRENT_SCENARIO s) fixture = Inr loaded \<and> loaded \<noteq> JNull \<longrightarrow>
        fst (handle_tool e s tool_name (NotJson raw)) = Inr (JObj [(response_key, loaded)]))
   \<and> (map_of TOOL_CATALOG tool_name = Some (FixtureList fixture response_key (Some ''inbox_summary''))
        \<and> load_fixture e (CURRENT_SCENARIO s) fixture = Inr (JArr (map JObj msgs)) \<longrightarrow>
        fst (handle_tool e s tool_name (NotJson raw))
          = Inr (JObj [(response_key, JArr (map
              (\<lambda>d. JObj [(''id'', dict_get d ''id'' JNull),
                          (''sender'', dict_get d ''sender'' JNull),
                          (''subject'', dict_get d ''subject'' JNull),
                          (''snippet'', JStr (take 100 (py_str (dict_get d ''body'' (JStr []))))),
                          (''received_ts'', dict_get d ''received_ts'' (JStr [])),
                          (''labels'', dict_get d ''labels'' (JArr [])),
                          (''is_urgent'', dict_get d ''is_urgent'' (JBool False))]) msgs))]))
   \<and> (map_of TOOL_CATALOG tool_name = Some (FixtureLookup fixture lookup_field param_field response_key)
        \<and> load_fixture e (CURRENT_SCENARIO s) fixture = Inr JNull \<longrightarrow>
        fst (handle_tool e s tool_name (NotJson raw))
          = Inr (JObj [(response_key, JNull), (''found'', JBool False)]))
   \<and> (map_of TOOL_CATALOG tool_name = Some (FixtureLookup fixture lookup_field param_field response_key)
        \<and> load_fixture e (CURRENT_SCENARIO s) fixture = Inr (JArr (map JObj records)) \<longrightarrow>
        fst (handle_tool e s tool_name (NotJson raw))
          = Inr (case List.find (\<lambda>d. py_str (dict_get d lookup_field JNull) = []) records of
                   None \<Rightarrow> JObj [(response_key, JNull), (''found'', JBool False)]
                 | Some d \<Rightarrow> JObj [(response_key, JObj d), (''found'', JBool True)]))
   \<and> (tool_name = ''email.draft'' \<longrightarrow>
        fst (handle_tool e s tool_name (NotJson raw))
          = Inr (JObj [(''draft_id'', JStr ''draft_unknown''),
                       (''preview'',
                          JStr ''[Draft reply to unknown]: No instructions provided...'')]))
   \<and> (tool_name = ''memory.read''
        \<and> (\<forall>t j. resolve e (path_div (path_div (FIXTURES_PATH e) (CURRENT_SCENARIO s)) ''memory'')
                    \<noteq> Some (File t j)) \<longrightarrow>
        fst (handle_tool e s tool_name (NotJson raw))
          = Inr (JObj [(''content'', JNull), (''exists'', JBool False)]))
   \<and> (tool_name = ''slack.read_messages''
        \<and> load_fixture e (CURRENT_SCENARIO s) ''slack_messages.json'' = Inr loaded \<longrightarrow>
        fst (handle_tool e s tool_name (NotJson raw))
          = Inr (JObj [(''messages'', if truthy loaded then loaded else JArr [])]))
   \<and> (tool_name = ''search.web''
        \<and> load_fixture e (CURRENT_SCENARIO s) ''web_search_results.json'' = Inr results \<longrightarrow>
        fst (handle_tool e s tool_name (NotJson raw))
          = Inr (case results of
                   JArr xs \<Rightarrow>
                     if xs = [] then search_placeholder (JStr [])
                     else JObj [(''results'', JArr xs)]
                 | JObj d \<Rightarrow>
                     (case map_of d [] of
                        Some v \<Rightarrow> JObj [(''results'', v)]
                      | None \<Rightarrow> search_placeholder (JStr []))
                 | _ \<Rightarrow> search_placeholder (JStr [])))"
proof -
  have c1: "handle_tool e s tool_name EmptyBody = handle_tool e s tool_name (Json (JObj []))"
    by (rule body_parse_same)
  have c2: "handle_tool e s tool_name (NotJson raw) = handle_tool e s tool_name (Json (JObj []))"
    by (rule body_parse_same)
  have c3: "fst (handle_tool e s tool_name (NotJson raw)) = Inr result \<longrightarrow>
        tool_calls (snd (handle_tool e s tool_name (NotJson raw)))
          = tool_calls s @ [JObj [(''ts'', JStr (isoformat (now_log e))),
                                  (''tool'', JStr tool_name),
                                  (''args'', JObj []),
                                  (''result_summary'', JStr (take 200 (py_str result)))]]"
    unfolding c2 by (rule impI) (rule handle_tool_returns)
  have w: "map_of TOOL_CATALOG tool_name = Some (WriteAction (Some template) echo_fields irreversible) \<longrightarrow>
        fst (handle_tool e s tool_name (NotJson raw))
          = Inr (JObj (map (\<lambda>kv. (fst kv,
                                    case snd kv of
                                      JStr x \<Rightarrow> JStr (py_replace ''{ts}'' (strftime (now_ts e)) x)
                                    | w \<Rightarrow> w))
                           template))"
  proof
    assume m: "map_of TOOL_CATALOG tool_name = Some (WriteAction (Some template) echo_fields irreversible)"
    then have "(tool_name, WriteAction (Some template) echo_fields irreversible) \<in> set TOOL_CATALOG"
      by (rule map_of_SomeD)
    then show "fst (handle_tool e s tool_name (NotJson raw))
          = Inr (JObj (map (\<lambda>kv. (fst kv,
                                    case snd kv of
                                      JStr x \<Rightarrow> JStr (py_replace ''{ts}'' (strftime (now_ts e)) x)
                                    | w \<Rightarrow> w))
                           template))"
      unfolding c2 write_run[OF m] by (rule write_action_catalog_no_arguments)
  qed
  have l1: "map_of TOOL_CATALOG tool_name = Some (FixtureList fixture response_key transform)
        \<and> load_fixture e (CURRENT_SCENARIO s) fixture = Inr JNull \<longrightarrow>
        fst (handle_tool e s tool_name (NotJson raw)) = Inr (JObj [(response_key, JArr [])])"
    by (simp add: c2 list_run fixture_list_absent)
  have l2: "map_of TOOL_CATALOG tool_name = Some (FixtureList fixture response_key None)
        \<and> load_fixture e (CURRENT_SCENARIO s) fixture = Inr loaded \<and> loaded \<noteq> JNull \<longrightarrow>
        fst (handle_tool e s tool_name (NotJson raw)) = Inr (JObj [(response_key, loaded)])"
    by (simp add: c2 list_run fixture_list_def)
  have l3: "map_of TOOL_CATALOG tool_name = Some (FixtureList fixture response_key (Some ''inbox_summary''))
        \<and> load_fixture e (CURRENT_SCENARIO s) fixture = Inr (JArr (map JObj msgs)) \<longrightarrow>
        fst (handle_tool e s tool_name (NotJson raw))
          = Inr (JObj [(response_key, JArr (map
              (\<lambda>d. JObj [(''id'', dict_get d ''id'' JNull),
                          (''sender'', dict_get d ''sender'' JNull),
                          (''subject'', dict_get d ''subject'' JNull),
                          (''snippet'', JStr (take 100 (py_str (dict_get d ''body'' (JStr []))))),
                          (''received_ts'', dict_get d ''received_ts'' (JStr [])),
                          (''labels'', dict_get d ''labels'' (JArr [])),
                          (''is_urgent'', dict_get d ''is_urgent'' (JBool False))]) msgs))])"
    by (simp add: c2 list_run fixture_list_def map_raise_inbox_summary)
  have k1: "map_of TOOL_CATALOG tool_name = Some (FixtureLookup fixture lookup_field param_field response_key)
        \<and> load_fixture e (CURRENT_SCENARIO s) fixture = Inr JNull \<longrightarrow>
        fst (handle_tool e s tool_name (NotJson raw))
          = Inr (JObj [(response_key, JNull), (''found'', JBool False)])"
  proof (intro impI, elim conjE)
    assume m: "map_of TOOL_CATALOG tool_name = Some (FixtureLookup fixture lookup_field param_field response_key)"
      and lf: "load_fixture e (CURRENT_SCENARIO s) fixture = Inr JNull"
    from m have "response_key \<noteq> ''found''"
      by (auto dest: map_of_SomeD catalog_lookup_key)
    then show "fst (handle_tool e s tool_name (NotJson raw))
          = Inr (JObj [(response_key, JNull), (''found'', JBool False)])"
      by (simp add: c2 lookup_run[OF m] fixture_lookup_absent[OF lf])
  qed
  have k2: "map_of TOOL_CATALOG tool_name = Some (FixtureLookup fixture lookup_field param_field response_key)
        \<and> load_fixture e (CURRENT_SCENARIO s) fixture = Inr (JArr (map JObj records)) \<longrightarrow>
        fst (handle_tool e s tool_name (NotJson raw))
          = Inr (case List.find (\<lambda>d. py_str (dict_get d lookup_field JNull) = []) records of
                   None \<Rightarrow> JObj [(response_key, JNull), (''found'', JBool False)]
                 | Some d \<Rightarrow> JObj [(response_key, JObj d), (''found'', JBool True)])"
  proof (intro impI, elim conjE)
    assume m: "map_of TOOL_CATALOG tool_name = Some (FixtureLookup fixture lookup_field param_field response_key)"
      and lf: "load_fixture e (CURRENT_SCENARIO s) fixture = Inr (JArr (map JObj records))"
    from m have key: "response_key \<noteq> ''found''"
      by (auto dest: map_of_SomeD catalog_lookup_key)
    have fg: "flexget (JObj []) [param_field, ''id''] (JStr []) = Inr (JStr [])"
      by (simp add: dict_get_def)
    show "fst (handle_tool e s tool_name (NotJson raw))
          = Inr (case List.find (\<lambda>d. py_str (dict_get d lookup_field JNull) = []) records of
                   None \<Rightarrow> JObj [(response_key, JNull), (''found'', JBool False)]
                 | Some d \<Rightarrow> JObj [(response_key, JObj d), (''found'', JBool True)])"
      using key
      by (simp add: c2 lookup_run[OF m] fixture_lookup_def lf fg first_match_find
          del: flexget.simps split: option.split)
  qed
  have d: "tool_name = ''email.draft'' \<longrightarrow>
        fst (handle_tool e s tool_name (NotJson raw))
          = Inr (JObj [(''draft_id'', JStr ''draft_unknown''),
                       (''preview'',
                          JStr ''[Draft reply to unknown]: No instructions provided...'')])"
  proof
    assume t: "tool_name = ''email.draft''"
    have m: "map_of TOOL_CATALOG ''email.draft'' = Some (Custom ''handle_email_draft'')"
      by (simp add: TOOL_CATALOG_def)
    have h: "map_of CUSTOM_HANDLERS ''handle_email_draft'' = Some handle_email_draft"
      by (simp add: CUSTOM_HANDLERS_def)
    show "fst (handle_tool e s tool_name (NotJson raw))
          = Inr (JObj [(''draft_id'', JStr ''draft_unknown''),
                       (''preview'',
                          JStr ''[Draft reply to unknown]: No instructions provided...'')])"
      by (simp add: t body_parse_same custom_run[OF m h] handle_email_draft_def dict_get_def)
  qed
  have mr: "tool_name = ''memory.read''
        \<and> (\<forall>t j. resolve e (path_div (path_div (FIXTURES_PATH e) (CURRENT_SCENARIO s)) ''memory'')
                    \<noteq> Some (File t j)) \<longrightarrow>
        fst (handle_tool e s tool_name (NotJson raw))
          = Inr (JObj [(''content'', JNull), (''exists'', JBool False)])"
    by (auto simp: body_parse_same memory_run intro: memory_read_no_arguments)
  have sl: "tool_name = ''slack.read_messages''
        \<and> load_fixture e (CURRENT_SCENARIO s) ''slack_messages.json'' = Inr loaded \<longrightarrow>
        fst (handle_tool e s tool_name (NotJson raw))
          = Inr (JObj [(''messages'', if truthy loaded then loaded else JArr [])])"
    by (simp add: body_parse_same slack_run handle_slack_read_messages_def dict_get_def)
  have sw: "tool_name = ''search.web''
        \<and> load_fixture e (CURRENT_SCENARIO s) ''web_search_results.json'' = Inr results \<longrightarrow>
        fst (handle_tool e s tool_name (NotJson raw))
          = Inr (case results of
                   JArr xs \<Rightarrow>
                     if xs = [] then search_placeholder (JStr [])
                     else JObj [(''results'', JArr xs)]
                 | JObj d \<Rightarrow>
                     (case map_of d [] of
                        Some v \<Rightarrow> JObj [(''results'', v)]
                      | None \<Rightarrow> search_placeholder (JStr []))
                 | _ \<Rightarrow> search_placeholder (JStr []))"
    by (simp add: body_parse_same search_run search_web_no_arguments)
  from c1 c2 c3 w l1 l2 l3 k1 k2 d mr sl sw show ?thesis
    by blast
qed

lemma example_clock:
  "strftime (now_ts example_env) = ''20260102030405''"
  "isoformat (now_log example_env) = ''2026-01-02T03:04:05.000017+00:00''"
  by code_simp+

lemma example_tasks_Z:
  "load_fixture example_env ''Z'' ''tasks.json'' = Inr JNull"
  by (simp add: load_fixture_def path_exists_def resolve_def
      path_div_def parse_path_def example_env_def example_fs_def Let_def)

lemma example_memory_dir:
  "resolve example_env (path_div (path_div (FIXTURES_PATH example_env) ''B'') ''memory'')
     = Some (Dir [(''notes.md'', File (Some ''remember the milk'') None)])"
  by (simp add: resolve_def path_div_def parse_path_def example_env_def example_fs_def Let_def)

text \<open>The instance: the text \<^verbatim>\<open>{title:\<close> sent to eight tools of the example installation.
  \<open>calendar.create\<close> answers with its template and the timestamp, and the success log
  records the arguments \<^verbatim>\<open>{}\<close>.\<close>

theorem unparseable_body_as_empty_object_witness:
  "handle_tool example_env example_state ''calendar.create'' (NotJson ''{title:'')
     = handle_tool example_env example_state ''calendar.create'' (Json (JObj []))
   \<and> fst (handle_tool example_env example_state ''calendar.create'' (NotJson ''{title:''))
     = Inr (JObj [(''status'', JStr ''created''), (''event_id'', JStr ''evt_20260102030405'')])
   \<and> tool_calls (snd (handle_tool example_env example_state ''calendar.create'' (NotJson ''{title:'')))
     = tool_calls example_state @
         [JObj [(''ts'', JStr ''2026-01-02T03:04:05.000017+00:00''),
                (''tool'', JStr ''calendar.create''),
                (''args'', JObj []),
                (''result_summary'',
                   JStr (take 200 (py_str (JObj [(''status'', JStr ''created''),
                      (''event_id'', JStr ''evt_20260102030405'')]))))]]
   \<and> fst (handle_tool example_env (initial_state ''Z'') ''task.get'' (NotJson ''{title:''))
     = Inr (JObj [(''task'', JNull), (''found'', JBool False)])
   \<and> fst (handle_tool example_env (initial_state ''B'') ''email.read'' (NotJson ''{title:''))
     = Inr (JObj [(''email'', JNull), (''found'', JBool False)])
   \<and> fst (handle_tool example_env (initial_state ''B'') ''inbox.list'' (NotJson ''{title:''))
     = Inr (JObj [(''messages'',
         JArr [JObj [(''id'', JInt 42), (''sender'', JStr ''a@x.com''), (''subject'', JStr ''Hi''),
                     (''snippet'', JStr []), (''received_ts'', JStr []), (''labels'', JArr []),
                     (''is_urgent'', JBool False)]])])
   \<and> fst (handle_tool example_env (initial_state ''B'') ''email.draft'' (NotJson ''{title:''))
     = Inr (JObj [(''draft_id'', JStr ''draft_unknown''),
                  (''preview'', JStr ''[Draft reply to unknown]: No instructions provided...'')])
   \<and> fst (handle_tool example_env (initial_state ''B'') ''memory.read'' (NotJson ''{title:''))
     = Inr (JObj [(''content'', JNull), (''exists'', JBool False)])
   \<and> fst (handle_tool example_env (initial_state ''B'') ''slack.read_messages'' (NotJson ''{title:''))
     = Inr (JObj [(''messages'',
         JArr [JObj [(''channel'', JStr ''#general''), (''text'', JStr ''hello'')],
               JObj [(''channel'', JStr ''random''), (''text'', JStr ''lunch'')]])])
   \<and> fst (handle_tool example_env (initial_state ''D'') ''search.web'' (NotJson ''{title:''))
     = Inr (JObj [(''results'', JArr [JStr ''https://www.python.org''])])"
proof -
  note t = unparseable_body_as_empty_object[where e = example_env and raw = "''{title:''"]
  have mc: "map_of TOOL_CATALOG ''calendar.create''
       = Some (WriteAction (Some [(''status'', JStr ''created''), (''event_id'', JStr ''evt_{ts}'')])
           (Some [''title'', ''start'', ''end'']) True)"
    by (simp add: TOOL_CATALOG_def)
  have r0: "handle_tool example_env example_state ''calendar.create'' (NotJson ''{title:'')
     = handle_tool example_env example_state ''calendar.create'' (Json (JObj []))"
    by (rule t[where s = example_state and tool_name = "''calendar.create''", THEN conjunct2, THEN conjunct1])
  have r1: "fst (handle_tool example_env example_state ''calendar.create'' (NotJson ''{title:''))
     = Inr (JObj [(''status'', JStr ''created''), (''event_id'', JStr ''evt_20260102030405'')])"
  proof -
    have "fst (handle_tool example_env example_state ''calendar.create'' (NotJson ''{title:''))
       = Inr (JObj (map (\<lambda>kv. (fst kv,
                                 case snd kv of
                                   JStr x \<Rightarrow> JStr (py_replace ''{ts}'' (strftime (now_ts example_env)) x)
                                 | w \<Rightarrow> w))
                        [(''status'', JStr ''created''), (''event_id'', JStr ''evt_{ts}'')]))"
      by (rule t[where s = example_state and tool_name = "''calendar.create''"
          and template = "[(''status'', JStr ''created''), (''event_id'', JStr ''evt_{ts}'')]"
          and echo_fields = "Some [''title'', ''start'', ''end'']" and irreversible = True, THEN conjunct2, THEN conjunct2, THEN conjunct2, THEN conjunct1,
          THEN mp, OF mc])
    then show ?thesis
      by (simp add: example_clock py_replace_def)
  qed
  have r2: "tool_calls (snd (handle_tool example_env example_state ''calendar.create'' (NotJson ''{title:'')))
     = tool_calls example_state @
         [JObj [(''ts'', JStr ''2026-01-02T03:04:05.000017+00:00''),
                (''tool'', JStr ''calendar.create''),
                (''args'', JObj []),
                (''result_summary'',
                   JStr (take 200 (py_str (JObj [(''status'', JStr ''created''),
                      (''event_id'', JStr ''evt_20260102030405'')]))))]]"
  proof -
    have "tool_calls (snd (handle_tool example_env example_state ''calendar.create'' (NotJson ''{title:'')))
       = tool_calls example_state @
           [JObj [(''ts'', JStr (isoformat (now_log example_env))),
                  (''tool'', JStr ''calendar.create''),
                  (''args'', JObj []),
                  (''result_summary'',
                     JStr (take 200 (py_str (JObj [(''status'', JStr ''created''),
                        (''event_id'', JStr ''evt_20260102030405'')]))))]]"
      by (rule t[where s = example_state and tool_name = "''calendar.create''"
          and result = "JObj [(''status'', JStr ''created''), (''event_id'', JStr ''evt_20260102030405'')]", THEN conjunct2, THEN conjunct2, THEN conjunct1,
          THEN mp, OF r1])
    then show ?thesis
      unfolding example_clock .
  qed
  have mt: "map_of TOOL_CATALOG ''task.get'' = Some (FixtureLookup ''tasks.json'' ''id'' ''task_id'' ''task'')"
    by (simp add: TOOL_CATALOG_def)
  have f3: "load_fixture example_env (CURRENT_SCENARIO (initial_state ''Z'')) ''tasks.json'' = Inr JNull"
    by (simp add: initial_state_def example_tasks_Z)
  have r3: "fst (handle_tool example_env (initial_state ''Z'') ''task.get'' (NotJson ''{title:''))
     = Inr (JObj [(''task'', JNull), (''found'', JBool False)])"
    by (rule t[where s = "initial_state ''Z''" and tool_name = "''task.get''"
        and fixture = "''tasks.json''" and lookup_field = "''id''" and param_field = "''task_id''"
        and response_key = "''task''", THEN conjunct2, THEN conjunct2, THEN conjunct2, THEN conjunct2, THEN conjunct2, THEN conjunct2, THEN conjunct2, THEN conjunct1, THEN mp, OF conjI[OF mt f3]])
  have me: "map_of TOOL_CATALOG ''email.read''
       = Some (FixtureLookup ''inbox.json'' ''id'' ''message_id'' ''email'')"
    by (simp add: TOOL_CATALOG_def)
  have fi: "load_fixture example_env (CURRENT_SCENARIO (initial_state ''B'')) ''inbox.json''
       = Inr (JArr (map JObj [[(''id'', JInt 42), (''sender'', JStr ''a@x.com''),
                               (''subject'', JStr ''Hi'')]]))"
    by (simp add: initial_state_def example_inbox_file)
  have s42: "show_int 42 = ''42''"
    by (simp add: show_int_def show_nat.simps)
  have "fst (handle_tool example_env (initial_state ''B'') ''email.read'' (NotJson ''{title:''))
     = Inr (case List.find (\<lambda>d. py_str (dict_get d ''id'' JNull) = [])
                  [[(''id'', JInt 42), (''sender'', JStr ''a@x.com''), (''subject'', JStr ''Hi'')]] of
              None \<Rightarrow> JObj [(''email'', JNull), (''found'', JBool False)]
            | Some d \<Rightarrow> JObj [(''email'', JObj d), (''found'', JBool True)])"
    by (rule t[where s = "initial_state ''B''" and tool_name = "''email.read''"
        and fixture = "''inbox.json''" and lookup_field = "''id''" and param_field = "''message_id''"
        and response_key = "''email''"
        and records = "[[(''id'', JInt 42), (''sender'', JStr ''a@x.com''), (''subject'', JStr ''Hi'')]]", THEN conjunct2, THEN conjunct2, THEN conjunct2, THEN conjunct2, THEN conjunct2, THEN conjunct2, THEN conjunct2, THEN conjunct2, THEN conjunct1,
        THEN mp, OF conjI[OF me fi]])
  then have r4: "fst (handle_tool example_env (initial_state ''B'') ''email.read'' (NotJson ''{title:''))
     = Inr (JObj [(''email'', JNull), (''found'', JBool False)])"
    by (simp add: dict_get_def s42)
  have mi: "map_of TOOL_CATALOG ''inbox.list''
       = Some (FixtureList ''inbox.json'' ''messages'' (Some ''inbox_summary''))"
    by (simp add: TOOL_CATALOG_def)
  have "fst (handle_tool example_env (initial_state ''B'') ''inbox.list'' (NotJson ''{title:''))
     = Inr (JObj [(''messages'', JArr (map
              (\<lambda>d. JObj [(''id'', dict_get d ''id'' JNull),
                          (''sender'', dict_get d ''sender'' JNull),
                          (''subject'', dict_get d ''subject'' JNull),
                          (''snippet'', JStr (take 100 (py_str (dict_get d ''body'' (JStr []))))),
                          (''received_ts'', dict_get d ''received_ts'' (JStr [])),
                          (''labels'', dict_get d ''labels'' (JArr [])),
                          (''is_urgent'', dict_get d ''is_urgent'' (JBool False))])
              [[(''id'', JInt 42), (''sender'', JStr ''a@x.com''), (''subject'', JStr ''Hi'')]]))])"
    by (rule t[where s = "initial_state ''B''" and tool_name = "''inbox.list''"
        and fixture = "''inbox.json''" and response_key = "''messages''"
        and msgs = "[[(''id'', JInt 42), (''sender'', JStr ''a@x.com''), (''subject'', JStr ''Hi'')]]", THEN conjunct2, THEN conjunct2, THEN conjunct2, THEN conjunct2, THEN conjunct2, THEN conjunct2, THEN conjunct1,
        THEN mp, OF conjI[OF mi fi]])
  then have r5: "fst (handle_tool example_env (initial_state ''B'') ''inbox.list'' (NotJson ''{title:''))
     = Inr (JObj [(''messages'',
         JArr [JObj [(''id'', JInt 42), (''sender'', JStr ''a@x.com''), (''subject'', JStr ''Hi''),
                     (''snippet'', JStr []), (''received_ts'', JStr []), (''labels'', JArr []),
                     (''is_urgent'', JBool False)]])])"
    by (simp add: dict_get_def)
  have r6: "fst (handle_tool example_env (initial_state ''B'') ''email.draft'' (NotJson ''{title:''))
     = Inr (JObj [(''draft_id'', JStr ''draft_unknown''),
                  (''preview'', JStr ''[Draft reply to unknown]: No instructions provided...'')])"
    by (rule t[where s = "initial_state ''B''" and tool_name = "''email.draft''", THEN conjunct2, THEN conjunct2, THEN conjunct2, THEN conjunct2, THEN conjunct2, THEN conjunct2, THEN conjunct2, THEN conjunct2, THEN conjunct2, THEN conjunct1, THEN mp, OF refl])
  have f7: "\<forall>t j. resolve example_env
        (path_div (path_div (FIXTURES_PATH example_env) (CURRENT_SCENARIO (initial_state ''B''))) ''memory'')
        \<noteq> Some (File t j)"
    by (simp add: initial_state_def example_memory_dir)
  have r7: "fst (handle_tool example_env (initial_state ''B'') ''memory.read'' (NotJson ''{title:''))
     = Inr (JObj [(''content'', JNull), (''exists'', JBool False)])"
    by (rule t[where s = "initial_state ''B''" and tool_name = "''memory.read''", THEN conjunct2, THEN conjunct2, THEN conjunct2, THEN conjunct2, THEN conjunct2, THEN conjunct2, THEN conjunct2, THEN conjunct2, THEN conjunct2, THEN conjunct2, THEN conjunct1,
        THEN mp, OF conjI[OF refl f7]])
  have f8: "load_fixture example_env (CURRENT_SCENARIO (initial_state ''B'')) ''slack_messages.json''
     = Inr (JArr [JObj [(''channel'', JStr ''#general''), (''text'', JStr ''hello'')],
                  JObj [(''channel'', JStr ''random''), (''text'', JStr ''lunch'')]])"
    by (simp add: initial_state_def example_slack_file)
  have "fst (handle_tool example_env (initial_state ''B'') ''slack.read_messages'' (NotJson ''{title:''))
     = Inr (JObj [(''messages'',
         if truthy (JArr [JObj [(''channel'', JStr ''#general''), (''text'', JStr ''hello'')],
                          JObj [(''channel'', JStr ''random''), (''text'', JStr ''lunch'')]])
         then JArr [JObj [(''channel'', JStr ''#general''), (''text'', JStr ''hello'')],
                    JObj [(''channel'', JStr ''random''), (''text'', JStr ''lunch'')]]
         else JArr [])])"
    by (rule t[where s = "initial_state ''B''" and tool_name = "''slack.read_messages''"
        and loaded = "JArr [JObj [(''channel'', JStr ''#general''), (''text'', JStr ''hello'')],
               JObj [(''channel'', JStr ''random''), (''text'', JStr ''lunch'')]]", THEN conjunct2, THEN conjunct2, THEN conjunct2, THEN conjunct2, THEN conjunct2, THEN conjunct2, THEN conjunct2, THEN conjunct2, THEN conjunct2, THEN conjunct2, THEN conjunct2, THEN conjunct1,
        THEN mp, OF conjI[OF refl f8]])
  then have r8: "fst (handle_tool example_env (initial_state ''B'') ''slack.read_messages'' (NotJson ''{title:''))
     = Inr (JObj [(''messages'',
         JArr [JObj [(''channel'', JStr ''#general''), (''text'', JStr ''hello'')],
               JObj [(''channel'', JStr ''random''), (''text'', JStr ''lunch'')]])])"
    by simp
  have f9: "load_fixture example_env (CURRENT_SCENARIO (initial_state ''D'')) ''web_search_results.json''
     = Inr (JArr [JStr ''https://www.python.org''])"
    by (simp add: initial_state_def example_search_D)
  have "fst (handle_tool example_env (initial_state ''D'') ''search.web'' (NotJson ''{title:''))
     = Inr (case JArr [JStr ''https://www.python.org''] of
              JArr xs \<Rightarrow>
                if xs = [] then search_placeholder (JStr []) else JObj [(''results'', JArr xs)]
            | JObj d \<Rightarrow>
                (case map_of d [] of
                   Some v \<Rightarrow> JObj [(''results'', v)]
                 | None \<Rightarrow> search_placeholder (JStr []))
            | _ \<Rightarrow> search_placeholder (JStr []))"
    by (rule t[where s = "initial_state ''D''" and tool_name = "''search.web''"
        and results = "JArr [JStr ''https://www.python.org'']", THEN conjunct2, THEN conjunct2, THEN conjunct2, THEN conjunct2, THEN conjunct2, THEN conjunct2, THEN conjunct2, THEN conjunct2, THEN conjunct2, THEN conjunct2, THEN conjunct2, THEN conjunct2,
        THEN mp, OF conjI[OF refl f9]])
  then have r9: "fst (handle_tool example_env (initial_state ''D'') ''search.web'' (NotJson ''{title:''))
     = Inr (JObj [(''results'', JArr [JStr ''https://www.python.org''])])"
    by simp
  from r0 r1 r2 r3 r4 r5 r6 r7 r8 r9 show ?thesis
    by (intro conjI)
qed

end
